theory Spec2Isabelle
  imports Complex_Main
begin

section \<open>JavaScript values used by the orchestrator\<close>

text \<open>
  Strings are lists of 8-bit characters, read as the code units U+0000 to U+00FF: the
  white space of \<^verbatim>\<open>trim\<close> and \<^verbatim>\<open>\s\<close> in that range is the six ASCII white-space
  characters and the no-break space U+00A0, and \<^verbatim>\<open>toLowerCase\<close> maps \<^verbatim>\<open>A-Z\<close> and
  the capital letters U+00C0 to U+00DE (the multiplication sign apart). Numbers are exact
  rationals (no rounding, no overflow), with the two infinities and \<open>NaN\<close>. Token counts
  and clock readings are integers.
\<close>

datatype jsnum = Num rat | PosInf | NegInf | NaN

fun jadd :: "jsnum \<Rightarrow> jsnum \<Rightarrow> jsnum" where
  "jadd (Num a) (Num b) = Num (a + b)"
| "jadd NaN b = NaN"
| "jadd a NaN = NaN"
| "jadd PosInf NegInf = NaN"
| "jadd NegInf PosInf = NaN"
| "jadd PosInf b = PosInf"
| "jadd a PosInf = PosInf"
| "jadd NegInf b = NegInf"
| "jadd a NegInf = NegInf"

text \<open>An infinity (the positive one when \<open>pos\<close>) times a finite number.\<close>

definition inf_times :: "bool \<Rightarrow> rat \<Rightarrow> jsnum" where
  "inf_times pos x = (if x = 0 then NaN else if (0 < x) = pos then PosInf else NegInf)"

fun jmul :: "jsnum \<Rightarrow> jsnum \<Rightarrow> jsnum" where
  "jmul (Num a) (Num b) = Num (a * b)"
| "jmul NaN b = NaN"
| "jmul a NaN = NaN"
| "jmul PosInf (Num b) = inf_times True b"
| "jmul (Num a) PosInf = inf_times True a"
| "jmul NegInf (Num b) = inf_times False b"
| "jmul (Num a) NegInf = inf_times False a"
| "jmul PosInf PosInf = PosInf"
| "jmul NegInf NegInf = PosInf"
| "jmul PosInf NegInf = NegInf"
| "jmul NegInf PosInf = NegInf"

text \<open>
  Division by a count, the only division \<^verbatim>\<open>updateStats\<close> performs; the count is
  never \<open>0\<close> there.
\<close>

fun jdiv :: "jsnum \<Rightarrow> nat \<Rightarrow> jsnum" where
  "jdiv (Num a) n =
     (if n = 0 then (if a = 0 then NaN else if 0 < a then PosInf else NegInf)
      else Num (a / of_nat n))"
| "jdiv PosInf n = PosInf"
| "jdiv NegInf n = NegInf"
| "jdiv NaN n = NaN"

text \<open>\<^verbatim>\<open>Math.min\<close> and \<^verbatim>\<open>Math.max\<close> return \<open>NaN\<close> as soon as one argument is \<open>NaN\<close>.\<close>

fun Math_min :: "jsnum \<Rightarrow> jsnum \<Rightarrow> jsnum" where
  "Math_min (Num a) (Num b) = Num (min a b)"
| "Math_min NaN b = NaN"
| "Math_min a NaN = NaN"
| "Math_min NegInf b = NegInf"
| "Math_min a NegInf = NegInf"
| "Math_min PosInf b = b"
| "Math_min a PosInf = a"

fun Math_max :: "jsnum \<Rightarrow> jsnum \<Rightarrow> jsnum" where
  "Math_max (Num a) (Num b) = Num (max a b)"
| "Math_max NaN b = NaN"
| "Math_max a NaN = NaN"
| "Math_max PosInf b = PosInf"
| "Math_max a PosInf = PosInf"
| "Math_max NegInf b = b"
| "Math_max a NegInf = a"

text \<open>A number is falsy when it is \<open>0\<close> or \<open>NaN\<close>.\<close>

fun truthy_num :: "jsnum \<Rightarrow> bool" where
  "truthy_num (Num a) = (a \<noteq> 0)"
| "truthy_num PosInf = True"
| "truthy_num NegInf = True"
| "truthy_num NaN = False"

definition isWhiteSpace :: "char \<Rightarrow> bool" where
  "isWhiteSpace c =
     (c \<in> set [CHR 0x09, CHR 0x0A, CHR 0x0B, CHR 0x0C, CHR 0x0D, CHR '' '', CHR 0xA0])"

definition upperCaseLetters :: string where
  "upperCaseLetters =
     ''ABCDEFGHIJKLMNOPQRSTUVWXYZ'' @
     [CHR 0xC0, CHR 0xC1, CHR 0xC2, CHR 0xC3, CHR 0xC4, CHR 0xC5, CHR 0xC6, CHR 0xC7,
      CHR 0xC8, CHR 0xC9, CHR 0xCA, CHR 0xCB, CHR 0xCC, CHR 0xCD, CHR 0xCE, CHR 0xCF,
      CHR 0xD0, CHR 0xD1, CHR 0xD2, CHR 0xD3, CHR 0xD4, CHR 0xD5, CHR 0xD6,
      CHR 0xD8, CHR 0xD9, CHR 0xDA, CHR 0xDB, CHR 0xDC, CHR 0xDD, CHR 0xDE]"

definition lowerCaseLetters :: string where
  "lowerCaseLetters =
     ''abcdefghijklmnopqrstuvwxyz'' @
     [CHR 0xE0, CHR 0xE1, CHR 0xE2, CHR 0xE3, CHR 0xE4, CHR 0xE5, CHR 0xE6, CHR 0xE7,
      CHR 0xE8, CHR 0xE9, CHR 0xEA, CHR 0xEB, CHR 0xEC, CHR 0xED, CHR 0xEE, CHR 0xEF,
      CHR 0xF0, CHR 0xF1, CHR 0xF2, CHR 0xF3, CHR 0xF4, CHR 0xF5, CHR 0xF6,
      CHR 0xF8, CHR 0xF9, CHR 0xFA, CHR 0xFB, CHR 0xFC, CHR 0xFD, CHR 0xFE]"

definition toLowerChar :: "char \<Rightarrow> char" where
  "toLowerChar c =
     (case map_of (zip upperCaseLetters lowerCaseLetters) c of
        Some d \<Rightarrow> d
      | None \<Rightarrow> c)"

definition toLowerCase :: "string \<Rightarrow> string" where
  "toLowerCase s = map toLowerChar s"

definition trim :: "string \<Rightarrow> string" where
  "trim s = rev (dropWhile isWhiteSpace (rev (dropWhile isWhiteSpace s)))"

definition startsWith :: "string \<Rightarrow> string \<Rightarrow> bool" where
  "startsWith s t = (take (length t) s = t)"

fun includes_str :: "string \<Rightarrow> string \<Rightarrow> bool" where
  "includes_str [] t = (t = [])"
| "includes_str (c # cs) t = (startsWith (c # cs) t \<or> includes_str cs t)"

text \<open>
  \<^verbatim>\<open>s.split(/\s+/)\<close>: the pieces between maximal runs of white space; a run at
  either end leaves an empty piece there, and the empty string gives one empty piece.
\<close>

fun splitWS :: "string \<Rightarrow> string list" where
  "splitWS [] = [[]]"
| "splitWS (c # cs) =
     (if isWhiteSpace c then
        (case cs of
           [] \<Rightarrow> [] # splitWS cs
         | d # _ \<Rightarrow> if isWhiteSpace d then splitWS cs else [] # splitWS cs)
      else
        (case splitWS cs of
           [] \<Rightarrow> [[c]]
         | p # ps \<Rightarrow> (c # p) # ps))"

text \<open>
  A thrown value: the \<^verbatim>\<open>status\<close> property the adapters inspect (absent on a
  plain \<^verbatim>\<open>Error\<close>) and the message.
\<close>

record js_error =
  status :: "nat option"
  message :: string

definition Error :: "string \<Rightarrow> js_error" where
  "Error msg = \<lparr>status = None, message = msg\<rparr>"

text \<open>
  Reading \<^verbatim>\<open>table[key]\<close> on an object literal: the entry under an own key, or, for
  one of the names every object inherits from \<^verbatim>\<open>Object.prototype\<close>, the inherited
  member (a function or object, truthy, with none of the fields of an entry), or
  \<^verbatim>\<open>undefined\<close>.
\<close>

definition Object_prototype_keys :: "string list" where
  "Object_prototype_keys =
    [''constructor'', ''hasOwnProperty'', ''isPrototypeOf'', ''propertyIsEnumerable'',
     ''toLocaleString'', ''toString'', ''valueOf'', ''__proto__'',
     ''__defineGetter__'', ''__defineSetter__'', ''__lookupGetter__'', ''__lookupSetter__'']"

datatype 'a property = Own 'a | Inherited | Absent

definition table_get :: "(string \<rightharpoonup> 'a) \<Rightarrow> string \<Rightarrow> 'a property" where
  "table_get table key =
     (case table key of
        Some v \<Rightarrow> Own v
      | None \<Rightarrow> if key \<in> set Object_prototype_keys then Inherited else Absent)"

section \<open>model-registry.ts\<close>

datatype Provider = anthropic | openai | google

datatype ModelTier = flagship | balanced | fast_tier | budget

text \<open>
  \<^verbatim>\<open>RouteType\<close> is a union of string literals, erased at run time: a route is a
  string. The five valid ones are the keys of \<^verbatim>\<open>ROUTE_CONFIGS\<close>, and the list
  \<^verbatim>\<open>validRoutes\<close> that \<^verbatim>\<open>parseRouterResponse\<close> checks against.
\<close>

type_synonym RouteType = string

definition validRoutes :: "RouteType list" where
  "validRoutes = [''fast'', ''standard'', ''deep'', ''creative'', ''research'']"

text \<open>
  Of the configuration records the fields that code reads are kept; the descriptive
  ones (\<^verbatim>\<open>notes\<close>, \<^verbatim>\<open>description\<close>, \<^verbatim>\<open>retrievalConfig\<close>) are left out.
\<close>

record ModelConfig =
  model_id :: string
  model_alias :: "string option"
  model_provider :: Provider
  tier :: ModelTier
  contextWindow :: nat
  maxOutput :: nat
  inputCost :: rat
  outputCost :: rat
  features :: "string list"

definition MODELS_entries :: "(string \<times> ModelConfig) list" where
  "MODELS_entries =
    [(''claude-opus-4'',
        \<lparr>model_id = ''claude-opus-4-20250514'', model_alias = Some ''claude-opus-4-latest'',
         model_provider = anthropic, tier = flagship, contextWindow = 200000,
         maxOutput = 32000, inputCost = 15, outputCost = 75,
         features = [''extended_thinking'', ''vision'', ''tool_use'']\<rparr>),
     (''claude-sonnet-4'',
        \<lparr>model_id = ''claude-sonnet-4-20250514'', model_alias = Some ''claude-sonnet-4-latest'',
         model_provider = anthropic, tier = balanced, contextWindow = 200000,
         maxOutput = 16000, inputCost = 3, outputCost = 15,
         features = [''extended_thinking'', ''vision'', ''tool_use'']\<rparr>),
     (''claude-haiku-3.5'',
        \<lparr>model_id = ''claude-3-5-haiku-20241022'', model_alias = Some ''claude-3-5-haiku-latest'',
         model_provider = anthropic, tier = fast_tier, contextWindow = 200000,
         maxOutput = 8192, inputCost = 4 / 5, outputCost = 4,
         features = [''vision'', ''tool_use'']\<rparr>),
     (''gpt-4o'',
        \<lparr>model_id = ''gpt-4o'', model_alias = None,
         model_provider = openai, tier = balanced, contextWindow = 128000,
         maxOutput = 16384, inputCost = 5 / 2, outputCost = 10,
         features = [''json_mode'', ''vision'', ''function_calling'']\<rparr>),
     (''gpt-4o-mini'',
        \<lparr>model_id = ''gpt-4o-mini'', model_alias = None,
         model_provider = openai, tier = fast_tier, contextWindow = 128000,
         maxOutput = 16384, inputCost = 3 / 20, outputCost = 3 / 5,
         features = [''json_mode'', ''vision'', ''function_calling'']\<rparr>),
     (''gemini-1.5-pro'',
        \<lparr>model_id = ''gemini-1.5-pro'', model_alias = None,
         model_provider = google, tier = balanced, contextWindow = 2000000,
         maxOutput = 8192, inputCost = 5 / 4, outputCost = 5,
         features = [''vision'']\<rparr>),
     (''gemini-1.5-flash'',
        \<lparr>model_id = ''gemini-1.5-flash'', model_alias = None,
         model_provider = google, tier = fast_tier, contextWindow = 1000000,
         maxOutput = 8192, inputCost = 3 / 40, outputCost = 3 / 10,
         features = [''vision'']\<rparr>)]"

text \<open>The own keys of \<^verbatim>\<open>MODELS\<close>; the code reads it as \<open>table_get MODELS key\<close>.\<close>

definition MODELS :: "string \<rightharpoonup> ModelConfig" where
  "MODELS = map_of MODELS_entries"

record RouteConfig =
  route_name :: RouteType
  primaryModel :: string
  fallbackChain :: "string list"
  reranking :: bool
  temperature :: rat
  maxTokens :: nat

definition ROUTE_CONFIGS_entries :: "(RouteType \<times> RouteConfig) list" where
  "ROUTE_CONFIGS_entries =
    [(''fast'',
        \<lparr>route_name = ''fast'', primaryModel = ''gpt-4o-mini'',
         fallbackChain = [''gemini-1.5-flash'', ''claude-haiku-3.5''],
         reranking = False, temperature = 3 / 10, maxTokens = 500\<rparr>),
     (''standard'',
        \<lparr>route_name = ''standard'', primaryModel = ''claude-sonnet-4'',
         fallbackChain = [''gpt-4o'', ''gemini-1.5-pro''],
         reranking = True, temperature = 1 / 2, maxTokens = 800\<rparr>),
     (''deep'',
        \<lparr>route_name = ''deep'', primaryModel = ''claude-opus-4'',
         fallbackChain = [''claude-sonnet-4'', ''gpt-4o''],
         reranking = True, temperature = 3 / 5, maxTokens = 1500\<rparr>),
     (''creative'',
        \<lparr>route_name = ''creative'', primaryModel = ''claude-sonnet-4'',
         fallbackChain = [''gpt-4o'', ''gemini-1.5-pro''],
         reranking = False, temperature = 4 / 5, maxTokens = 1000\<rparr>),
     (''research'',
        \<lparr>route_name = ''research'', primaryModel = ''gemini-1.5-pro'',
         fallbackChain = [''claude-sonnet-4'', ''gpt-4o''],
         reranking = True, temperature = 3 / 5, maxTokens = 1500\<rparr>)]"

definition ROUTE_CONFIGS :: "RouteType \<rightharpoonup> RouteConfig" where
  "ROUTE_CONFIGS = map_of ROUTE_CONFIGS_entries"

definition SPECIALIZED_MODELS_router :: string where
  "SPECIALIZED_MODELS_router = ''claude-haiku-3.5''"

definition getModel :: "string \<Rightarrow> ModelConfig property" where
  "getModel modelKey = table_get MODELS modelKey"

text \<open>
  \<^verbatim>\<open>getModelId\<close> throws for an absent key only; an inherited member has neither
  \<^verbatim>\<open>alias\<close> nor \<^verbatim>\<open>id\<close>, and the result is \<^verbatim>\<open>undefined\<close> (\<open>None\<close>).
\<close>

definition getModelId :: "string \<Rightarrow> bool \<Rightarrow> js_error + string option" where
  "getModelId modelKey useAlias =
     (case table_get MODELS modelKey of
        Absent \<Rightarrow> Inl (Error (''Unknown model: '' @ modelKey))
      | Inherited \<Rightarrow> Inr None
      | Own m \<Rightarrow>
          (case model_alias m of
             Some a \<Rightarrow> if useAlias \<and> a \<noteq> [] then Inr (Some a) else Inr (Some (model_id m))
           | None \<Rightarrow> Inr (Some (model_id m))))"

definition getRouteConfig :: "RouteType \<Rightarrow> RouteConfig property" where
  "getRouteConfig route = table_get ROUTE_CONFIGS route"

text \<open>
  \<^verbatim>\<open>getRouteModel\<close> fails reading \<^verbatim>\<open>primaryModel\<close> of \<^verbatim>\<open>undefined\<close> for a
  string that is no key at all; for an inherited name \<^verbatim>\<open>primaryModel\<close> is
  \<^verbatim>\<open>undefined\<close>, which is looked up as the key \<^verbatim>\<open>undefined\<close>. What it returns is
  what \<^verbatim>\<open>MODELS\<close> holds under the primary model.
\<close>

definition invalid_primary_model :: "RouteType \<Rightarrow> string \<Rightarrow> js_error" where
  "invalid_primary_model route key =
     Error (''Invalid primary model for route '' @ route @ '': '' @ key)"

definition getRouteModel :: "RouteType \<Rightarrow> js_error + ModelConfig property" where
  "getRouteModel route =
     (case table_get ROUTE_CONFIGS route of
        Absent \<Rightarrow>
          Inl (Error ''Cannot read properties of undefined (reading 'primaryModel')'')
      | Inherited \<Rightarrow>
          (case table_get MODELS ''undefined'' of
             Absent \<Rightarrow> Inl (invalid_primary_model route ''undefined'')
           | model \<Rightarrow> Inr model)
      | Own routeConfig \<Rightarrow>
          (case table_get MODELS (primaryModel routeConfig) of
             Absent \<Rightarrow> Inl (invalid_primary_model route (primaryModel routeConfig))
           | model \<Rightarrow> Inr model))"

text \<open>
  \<^verbatim>\<open>estimateCost\<close> throws for an absent key only. An inherited member has no
  \<^verbatim>\<open>inputCost\<close> and no \<^verbatim>\<open>outputCost\<close>: both products are \<open>NaN\<close>, and so is
  their sum.
\<close>

definition estimateCost :: "string \<Rightarrow> rat \<Rightarrow> rat \<Rightarrow> js_error + jsnum" where
  "estimateCost modelKey inputTokens outputTokens =
     (case table_get MODELS modelKey of
        Absent \<Rightarrow> Inl (Error (''Unknown model: '' @ modelKey))
      | Inherited \<Rightarrow> Inr NaN
      | Own m \<Rightarrow>
          (let inputCost' = (inputTokens / 1000000) * inputCost m;
               outputCost' = (outputTokens / 1000000) * outputCost m
           in Inr (Num (inputCost' + outputCost'))))"

section \<open>providers.ts\<close>

datatype Role = user | assistant

record Message =
  role :: Role
  content :: string

record ChatOptions =
  jsonMode :: "bool option"
  opt_maxTokens :: "nat option"
  opt_temperature :: "rat option"

record Usage =
  inputTokens :: nat
  outputTokens :: nat

record ChatResult =
  cr_content :: string
  cr_provider :: string
  cr_model :: string
  cr_usage :: "Usage option"

text \<open>
  The remote call is opaque. What an adapter sends is kept as a request record (the
  per-SDK parameter objects carry the same fields); what comes back is decided by the
  client, a function of the number of calls already made in this \<^verbatim>\<open>chat\<close> and of
  the request, so that two calls with equal requests may still answer differently.
  Each \<^verbatim>\<open>chat\<close> returns its outcome together with the requests it issued, in order.
\<close>

record request =
  req_model :: string
  req_max_tokens :: nat
  req_temperature :: "rat option"
  req_system :: string
  req_messages :: "Message list"
  req_json :: bool

type_synonym 'r client = "nat \<Rightarrow> request \<Rightarrow> js_error + 'r"

record 'r adapter =
  a_client :: "'r client option"
  a_primaryModel :: string
  a_fallbackModel :: string

text \<open>\<^verbatim>\<open>options?.x\<close> for an optional options object.\<close>

definition opt_jsonMode :: "ChatOptions option \<Rightarrow> bool" where
  "opt_jsonMode options = (case options of None \<Rightarrow> False | Some opts \<Rightarrow> jsonMode opts = Some True)"

definition temperature_of :: "ChatOptions option \<Rightarrow> rat option" where
  "temperature_of options = (case options of None \<Rightarrow> None | Some opts \<Rightarrow> opt_temperature opts)"

text \<open>\<^verbatim>\<open>options?.maxTokens || (options?.jsonMode ? j : d)\<close>: a limit of \<open>0\<close> is falsy.\<close>

definition maxTokens_or :: "ChatOptions option \<Rightarrow> nat \<Rightarrow> nat \<Rightarrow> nat" where
  "maxTokens_or options j d =
     (case (case options of None \<Rightarrow> None | Some opts \<Rightarrow> opt_maxTokens opts) of
        Some n \<Rightarrow> if n \<noteq> 0 then n else (if opt_jsonMode options then j else d)
      | None \<Rightarrow> if opt_jsonMode options then j else d)"

text \<open>\<^verbatim>\<open>options?.m || dflt\<close> in the constructors: an empty model name is falsy.\<close>

definition model_or :: "string option \<Rightarrow> string \<Rightarrow> string" where
  "model_or m dflt = (case m of None \<Rightarrow> dflt | Some s \<Rightarrow> if s = [] then dflt else s)"

record ProviderConfig =
  cfg_primaryModel :: "string option"
  cfg_fallbackModel :: "string option"

definition new_adapter ::
  "'r client option \<Rightarrow> ProviderConfig option \<Rightarrow> string \<Rightarrow> string \<Rightarrow> 'r adapter" where
  "new_adapter cl options dp df =
     \<lparr>a_client = cl,
      a_primaryModel = model_or (case options of None \<Rightarrow> None | Some c \<Rightarrow> cfg_primaryModel c) dp,
      a_fallbackModel = model_or (case options of None \<Rightarrow> None | Some c \<Rightarrow> cfg_fallbackModel c) df\<rparr>"

subsection \<open>Anthropic provider\<close>

datatype content_block = text_block string | other_block

record anthropic_response =
  an_content :: "content_block list"
  stop_reason :: string
  input_tokens :: nat
  output_tokens :: nat

definition AnthropicProvider_name :: string where
  "AnthropicProvider_name = ''Anthropic Claude''"

definition new_AnthropicProvider ::
  "anthropic_response client option \<Rightarrow> ProviderConfig option \<Rightarrow> anthropic_response adapter" where
  "new_AnthropicProvider cl options =
     new_adapter cl options ''claude-sonnet-4-20250514'' ''claude-3-5-haiku-20241022''"

definition anthropic_request ::
  "string \<Rightarrow> Message list \<Rightarrow> string \<Rightarrow> ChatOptions option \<Rightarrow> request" where
  "anthropic_request model messages systemPrompt options =
     \<lparr>req_model = model, req_max_tokens = maxTokens_or options 8192 1024,
      req_temperature = temperature_of options, req_system = systemPrompt,
      req_messages = messages, req_json = False\<rparr>"

text \<open>
  The part shared by the \<^verbatim>\<open>try\<close> block of \<^verbatim>\<open>chat\<close> and by \<^verbatim>\<open>chatWithModel\<close>:
  the call, the check of the first content block, the result. (The truncation warning
  of \<^verbatim>\<open>chat\<close> only logs.)
\<close>

definition anthropic_call ::
  "anthropic_response client \<Rightarrow> nat \<Rightarrow> string \<Rightarrow> Message list \<Rightarrow> string \<Rightarrow>
   ChatOptions option \<Rightarrow> js_error + ChatResult" where
  "anthropic_call cl k model messages systemPrompt options =
     (case cl k (anthropic_request model messages systemPrompt options) of
        Inl e \<Rightarrow> Inl e
      | Inr response \<Rightarrow>
          (case an_content response of
             [] \<Rightarrow> Inl (Error ''Cannot read properties of undefined (reading 'type')'')
           | other_block # _ \<Rightarrow> Inl (Error ''Unexpected response format from Anthropic'')
           | text_block t # _ \<Rightarrow>
               Inr \<lparr>cr_content = t, cr_provider = AnthropicProvider_name, cr_model = model,
                    cr_usage = Some \<lparr>inputTokens = input_tokens response,
                                     outputTokens = output_tokens response\<rparr>\<rparr>))"

definition anthropic_chatWithModel ::
  "anthropic_response client \<Rightarrow> nat \<Rightarrow> string \<Rightarrow> Message list \<Rightarrow> string \<Rightarrow>
   ChatOptions option \<Rightarrow> (js_error + ChatResult) \<times> request list" where
  "anthropic_chatWithModel cl k model messages systemPrompt options =
     (anthropic_call cl k model messages systemPrompt options,
      [anthropic_request model messages systemPrompt options])"

definition anthropic_chat ::
  "anthropic_response adapter \<Rightarrow> Message list \<Rightarrow> string \<Rightarrow> ChatOptions option \<Rightarrow>
   (js_error + ChatResult) \<times> request list" where
  "anthropic_chat a messages systemPrompt options =
     (case a_client a of
        None \<Rightarrow> (Inl (Error ''Anthropic API key not configured''), [])
      | Some cl \<Rightarrow>
          (case anthropic_call cl 0 (a_primaryModel a) messages systemPrompt options of
             Inr result \<Rightarrow>
               (Inr result, [anthropic_request (a_primaryModel a) messages systemPrompt options])
           | Inl error \<Rightarrow>
               if status error = Some 429 \<or> status error = Some 503 then
                 (let (r, log) = anthropic_chatWithModel cl 1 (a_fallbackModel a)
                                   messages systemPrompt options
                  in (r, anthropic_request (a_primaryModel a) messages systemPrompt options # log))
               else
                 (Inl error,
                  [anthropic_request (a_primaryModel a) messages systemPrompt options])))"

subsection \<open>OpenAI provider\<close>

record openai_choice =
  message_content :: "string option"
  finish_reason :: string

record openai_usage =
  prompt_tokens :: nat
  completion_tokens :: nat

record openai_response =
  choices :: "openai_choice list"
  oa_usage :: "openai_usage option"

definition OpenAIProvider_name :: string where
  "OpenAIProvider_name = ''OpenAI GPT''"

definition new_OpenAIProvider ::
  "openai_response client option \<Rightarrow> ProviderConfig option \<Rightarrow> openai_response adapter" where
  "new_OpenAIProvider cl options = new_adapter cl options ''gpt-4o'' ''gpt-4o-mini''"

definition openai_request ::
  "string \<Rightarrow> Message list \<Rightarrow> string \<Rightarrow> ChatOptions option \<Rightarrow> request" where
  "openai_request model messages systemPrompt options =
     \<lparr>req_model = model, req_max_tokens = maxTokens_or options 8192 1024,
      req_temperature = temperature_of options, req_system = systemPrompt,
      req_messages = messages, req_json = opt_jsonMode options\<rparr>"

definition openai_usage_of :: "openai_response \<Rightarrow> Usage option" where
  "openai_usage_of response =
     (case oa_usage response of
        None \<Rightarrow> None
      | Some u \<Rightarrow> Some \<lparr>inputTokens = prompt_tokens u, outputTokens = completion_tokens u\<rparr>)"

text \<open>
  The \<^verbatim>\<open>try\<close> block of \<^verbatim>\<open>chat\<close>: a missing choice, a null content and an empty
  content are all rejected (\<^verbatim>\<open>!choice?.message?.content\<close>).
\<close>

definition openai_primary ::
  "openai_response client \<Rightarrow> string \<Rightarrow> Message list \<Rightarrow> string \<Rightarrow>
   ChatOptions option \<Rightarrow> js_error + ChatResult" where
  "openai_primary cl model messages systemPrompt options =
     (case cl 0 (openai_request model messages systemPrompt options) of
        Inl e \<Rightarrow> Inl e
      | Inr response \<Rightarrow>
          (case (case choices response of [] \<Rightarrow> None | choice # _ \<Rightarrow> message_content choice) of
             None \<Rightarrow> Inl (Error ''Unexpected response format from OpenAI'')
           | Some c \<Rightarrow>
               if c = [] then Inl (Error ''Unexpected response format from OpenAI'')
               else Inr \<lparr>cr_content = c, cr_provider = OpenAIProvider_name, cr_model = model,
                         cr_usage = openai_usage_of response\<rparr>))"

text \<open>
  \<^verbatim>\<open>chatWithModel\<close> reads \<^verbatim>\<open>choice.message.content || ''\<close> unguarded: a missing
  choice is a \<^verbatim>\<open>TypeError\<close>, a null content becomes the empty string.
\<close>

definition openai_chatWithModel ::
  "openai_response client \<Rightarrow> nat \<Rightarrow> string \<Rightarrow> Message list \<Rightarrow> string \<Rightarrow>
   ChatOptions option \<Rightarrow> (js_error + ChatResult) \<times> request list" where
  "openai_chatWithModel cl k model messages systemPrompt options =
     ((case cl k (openai_request model messages systemPrompt options) of
         Inl e \<Rightarrow> Inl e
       | Inr response \<Rightarrow>
           (case choices response of
              [] \<Rightarrow> Inl (Error ''Cannot read properties of undefined (reading 'message')'')
            | choice # _ \<Rightarrow>
                Inr \<lparr>cr_content = (case message_content choice of None \<Rightarrow> [] | Some c \<Rightarrow> c),
                     cr_provider = OpenAIProvider_name, cr_model = model,
                     cr_usage = openai_usage_of response\<rparr>)),
      [openai_request model messages systemPrompt options])"

definition openai_chat ::
  "openai_response adapter \<Rightarrow> Message list \<Rightarrow> string \<Rightarrow> ChatOptions option \<Rightarrow>
   (js_error + ChatResult) \<times> request list" where
  "openai_chat a messages systemPrompt options =
     (case a_client a of
        None \<Rightarrow> (Inl (Error ''OpenAI API key not configured''), [])
      | Some cl \<Rightarrow>
          (case openai_primary cl (a_primaryModel a) messages systemPrompt options of
             Inr result \<Rightarrow>
               (Inr result, [openai_request (a_primaryModel a) messages systemPrompt options])
           | Inl error \<Rightarrow>
               if status error = Some 429 \<or> status error = Some 503 then
                 (let (r, log) = openai_chatWithModel cl 1 (a_fallbackModel a)
                                   messages systemPrompt options
                  in (r, openai_request (a_primaryModel a) messages systemPrompt options # log))
               else
                 (Inl error,
                  [openai_request (a_primaryModel a) messages systemPrompt options])))"

subsection \<open>Gemini provider\<close>

record gemini_usage =
  promptTokenCount :: "nat option"
  candidatesTokenCount :: "nat option"

record gemini_response =
  gm_text :: string
  finishReason :: "string option"
  usageMetadata :: "gemini_usage option"

definition GeminiProvider_name :: string where
  "GeminiProvider_name = ''Google Gemini''"

definition new_GeminiProvider ::
  "gemini_response client option \<Rightarrow> ProviderConfig option \<Rightarrow> gemini_response adapter" where
  "new_GeminiProvider cl options = new_adapter cl options ''gemini-1.5-pro'' ''gemini-1.5-flash''"

definition gemini_request ::
  "string \<Rightarrow> Message list \<Rightarrow> string \<Rightarrow> ChatOptions option \<Rightarrow> request" where
  "gemini_request model messages systemPrompt options =
     \<lparr>req_model = model, req_max_tokens = maxTokens_or options 16384 2048,
      req_temperature = temperature_of options, req_system = systemPrompt,
      req_messages = messages, req_json = opt_jsonMode options\<rparr>"

definition gemini_usage_of :: "gemini_response \<Rightarrow> Usage option" where
  "gemini_usage_of response =
     (case usageMetadata response of
        None \<Rightarrow> None
      | Some u \<Rightarrow>
          Some \<lparr>inputTokens = (case promptTokenCount u of None \<Rightarrow> 0 | Some n \<Rightarrow> n),
                outputTokens = (case candidatesTokenCount u of None \<Rightarrow> 0 | Some n \<Rightarrow> n)\<rparr>)"

text \<open>
  The part shared by the \<^verbatim>\<open>try\<close> block of \<^verbatim>\<open>chat\<close> and by \<^verbatim>\<open>chatWithModel\<close>.
  Both read the content of the last message before sending: with no message at all that
  is a \<^verbatim>\<open>TypeError\<close> and nothing is sent. (The truncation warning of \<^verbatim>\<open>chat\<close>
  only logs.)
\<close>

definition gemini_call ::
  "gemini_response client \<Rightarrow> nat \<Rightarrow> string \<Rightarrow> Message list \<Rightarrow> string \<Rightarrow>
   ChatOptions option \<Rightarrow> (js_error + ChatResult) \<times> request list" where
  "gemini_call cl k model messages systemPrompt options =
     (if messages = [] then
        (Inl (Error ''Cannot read properties of undefined (reading 'content')''), [])
      else
        ((case cl k (gemini_request model messages systemPrompt options) of
            Inl e \<Rightarrow> Inl e
          | Inr response \<Rightarrow>
              Inr \<lparr>cr_content = gm_text response, cr_provider = GeminiProvider_name,
                   cr_model = model, cr_usage = gemini_usage_of response\<rparr>),
         [gemini_request model messages systemPrompt options]))"

definition gemini_chatWithModel ::
  "gemini_response client \<Rightarrow> nat \<Rightarrow> string \<Rightarrow> Message list \<Rightarrow> string \<Rightarrow>
   ChatOptions option \<Rightarrow> (js_error + ChatResult) \<times> request list" where
  "gemini_chatWithModel cl k model messages systemPrompt options =
     gemini_call cl k model messages systemPrompt options"

definition gemini_chat ::
  "gemini_response adapter \<Rightarrow> Message list \<Rightarrow> string \<Rightarrow> ChatOptions option \<Rightarrow>
   (js_error + ChatResult) \<times> request list" where
  "gemini_chat a messages systemPrompt options =
     (case a_client a of
        None \<Rightarrow> (Inl (Error ''Google AI API key not configured''), [])
      | Some cl \<Rightarrow>
          (case gemini_call cl 0 (a_primaryModel a) messages systemPrompt options of
             (Inr result, sent) \<Rightarrow> (Inr result, sent)
           | (Inl error, sent) \<Rightarrow>
               if status error = Some 429 \<or> includes_str (message error) ''quota'' then
                 (let (r, log) = gemini_chatWithModel cl (length sent) (a_fallbackModel a)
                                   messages systemPrompt options
                  in (r, sent @ log))
               else (Inl error, sent)))"

subsection \<open>Provider manager\<close>

datatype AIProvider =
    AnthropicProvider "anthropic_response adapter"
  | OpenAIProvider "openai_response adapter"
  | GeminiProvider "gemini_response adapter"

fun provider_name :: "AIProvider \<Rightarrow> string" where
  "provider_name (AnthropicProvider a) = AnthropicProvider_name"
| "provider_name (OpenAIProvider a) = OpenAIProvider_name"
| "provider_name (GeminiProvider a) = GeminiProvider_name"

fun isAvailable :: "AIProvider \<Rightarrow> bool" where
  "isAvailable (AnthropicProvider a) = (a_client a \<noteq> None)"
| "isAvailable (OpenAIProvider a) = (a_client a \<noteq> None)"
| "isAvailable (GeminiProvider a) = (a_client a \<noteq> None)"

fun provider_chat ::
  "AIProvider \<Rightarrow> Message list \<Rightarrow> string \<Rightarrow> ChatOptions option \<Rightarrow>
   (js_error + ChatResult) \<times> request list" where
  "provider_chat (AnthropicProvider a) messages systemPrompt options =
     anthropic_chat a messages systemPrompt options"
| "provider_chat (OpenAIProvider a) messages systemPrompt options =
     openai_chat a messages systemPrompt options"
| "provider_chat (GeminiProvider a) messages systemPrompt options =
     gemini_chat a messages systemPrompt options"

text \<open>
  The constructor: the clients stand for the three API keys of the environment
  (\<open>None\<close> when the key is not set).
\<close>

datatype ProviderKey = anthropic_key | openai_key | google_key

record Environment =
  env_anthropic :: "anthropic_response client option"
  env_openai :: "openai_response client option"
  env_google :: "gemini_response client option"

record ProviderManagerOptions =
  providerOrder :: "ProviderKey list option"
  cfg_anthropic :: "ProviderConfig option"
  cfg_openai :: "ProviderConfig option"
  cfg_google :: "ProviderConfig option"

fun providerMap :: "Environment \<Rightarrow> ProviderManagerOptions option \<Rightarrow> ProviderKey \<Rightarrow> AIProvider" where
  "providerMap env options anthropic_key =
     AnthropicProvider (new_AnthropicProvider (env_anthropic env)
       (case options of None \<Rightarrow> None | Some c \<Rightarrow> cfg_anthropic c))"
| "providerMap env options openai_key =
     OpenAIProvider (new_OpenAIProvider (env_openai env)
       (case options of None \<Rightarrow> None | Some c \<Rightarrow> cfg_openai c))"
| "providerMap env options google_key =
     GeminiProvider (new_GeminiProvider (env_google env)
       (case options of None \<Rightarrow> None | Some c \<Rightarrow> cfg_google c))"

definition new_ProviderManager ::
  "Environment \<Rightarrow> ProviderManagerOptions option \<Rightarrow> AIProvider list" where
  "new_ProviderManager env options =
     (let order = (case (case options of None \<Rightarrow> None | Some c \<Rightarrow> providerOrder c) of
                     None \<Rightarrow> [anthropic_key, openai_key, google_key]
                   | Some ord \<Rightarrow> ord)
      in filter isAvailable (map (providerMap env options) order))"

text \<open>
  \<^verbatim>\<open>ProviderManager.chat\<close>. The loop carries \<^verbatim>\<open>lastError\<close>; the second component
  lists, in order, each provider tried with the requests it issued.
\<close>

fun chat_loop ::
  "AIProvider list \<Rightarrow> Message list \<Rightarrow> string \<Rightarrow> ChatOptions option \<Rightarrow> js_error option \<Rightarrow>
   (js_error + ChatResult) \<times> (string \<times> request list) list" where
  "chat_loop [] messages systemPrompt options lastError =
     (case lastError of
        Some e \<Rightarrow> (Inl e, [])
      | None \<Rightarrow> (Inl (Error ''All AI providers failed''), []))"
| "chat_loop (p # ps) messages systemPrompt options lastError =
     (case provider_chat p messages systemPrompt options of
        (Inr result, sent) \<Rightarrow> (Inr result, [(provider_name p, sent)])
      | (Inl error, sent) \<Rightarrow>
          (let (r, tried) = chat_loop ps messages systemPrompt options (Some error)
           in (r, (provider_name p, sent) # tried)))"

definition ProviderManager_chat ::
  "AIProvider list \<Rightarrow> Message list \<Rightarrow> string \<Rightarrow> ChatOptions option \<Rightarrow>
   (js_error + ChatResult) \<times> (string \<times> request list) list" where
  "ProviderManager_chat providers messages systemPrompt options =
     (if length providers = 0 then
        (Inl (Error ''No AI providers available. Please configure API keys.''), [])
      else chat_loop providers messages systemPrompt options None)"

definition getAvailableProviders :: "AIProvider list \<Rightarrow> string list" where
  "getAvailableProviders providers = map provider_name providers"

text \<open>
  For stating what the manager returns: the entry it records for a provider, and the
  two model ids a provider is configured with.
\<close>

definition tried_entry :: "Message list \<Rightarrow> string \<Rightarrow> ChatOptions option \<Rightarrow> AIProvider \<Rightarrow> string \<times> request list" where
  "tried_entry ms sp opts p = (provider_name p, snd (provider_chat p ms sp opts))"

fun provider_models :: "AIProvider \<Rightarrow> string set" where
  "provider_models (AnthropicProvider a) = {a_primaryModel a, a_fallbackModel a}"
| "provider_models (OpenAIProvider a) = {a_primaryModel a, a_fallbackModel a}"
| "provider_models (GeminiProvider a) = {a_primaryModel a, a_fallbackModel a}"

section \<open>JSON text, as the router reads it\<close>

text \<open>
  The classifier's answer is text, read by \<^verbatim>\<open>JSON.parse\<close>. That function belongs
  to the runtime: the router below takes it as a parameter, a function from the text to
  the value read, \<open>None\<close> standing for the \<^verbatim>\<open>SyntaxError\<close>, and what is proved of
  the router holds whatever that function is. A number read is any number of the
  language: a text such as \<^verbatim>\<open>1e999\<close> reads as \<open>Infinity\<close>. To run the router on given texts a reader
  of the JSON grammar is defined here, \<open>json_reader\<close>. It reads a number as the
  rational its digits denote, and an escape \<^verbatim>\<open>\uXXXX\<close> as the character of that code
  when the code is below 256 (a character above has no place in an 8-bit string, and the
  texts run below use none). Its fuel bounds the nesting and is one more than the length
  of the text, which no nesting exceeds.
\<close>

datatype json =
    JNull
  | JBool bool
  | JNumber jsnum
  | JString string
  | JArray "json list"
  | JObject "(string \<times> json) list"

definition isDigit :: "char \<Rightarrow> bool" where
  "isDigit c = (c \<in> set ''0123456789'')"

definition digitValue :: "char \<Rightarrow> nat" where
  "digitValue c =
     (case map_of (zip ''0123456789abcdefABCDEF''
                       [0, 1, 2, 3, 4, 5, 6, 7, 8, 9, 10, 11, 12, 13, 14, 15,
                        10, 11, 12, 13, 14, 15]) c of
        Some d \<Rightarrow> d
      | None \<Rightarrow> 0)"

text \<open>The digits of a base, and the value of a string of digits in that base.\<close>

definition isDigitOf :: "nat \<Rightarrow> char \<Rightarrow> bool" where
  "isDigitOf base c = (c \<in> set ''0123456789abcdefABCDEF'' \<and> digitValue c < base)"

definition digitsValueOf :: "nat \<Rightarrow> string \<Rightarrow> nat" where
  "digitsValueOf base ds = foldl (\<lambda>a c. base * a + digitValue c) 0 ds"

definition digitsValue :: "string \<Rightarrow> nat" where
  "digitsValue ds = digitsValueOf 10 ds"

text \<open>An exponent part \<^verbatim>\<open>e\<close>, optional sign, digits; \<open>None\<close> when the text does not start with one.\<close>

definition scanExponent :: "string \<Rightarrow> (int \<times> string) option" where
  "scanExponent s =
     (case s of
        [] \<Rightarrow> None
      | c # r \<Rightarrow>
          if c = CHR ''e'' \<or> c = CHR ''E'' then
            (let (neg, r1) =
                   (case r of
                      [] \<Rightarrow> (False, r)
                    | d # r' \<Rightarrow>
                        if d = CHR ''-'' then (True, r')
                        else if d = CHR ''+'' then (False, r')
                        else (False, r));
                 ds = takeWhile isDigit r1
             in if ds = [] then None
                else Some (if neg then - int (digitsValue ds) else int (digitsValue ds),
                           dropWhile isDigit r1))
          else None)"

text \<open>The value of integer digits, fraction digits and exponent.\<close>

definition decimalValue :: "string \<Rightarrow> string \<Rightarrow> int \<Rightarrow> rat" where
  "decimalValue ip fp e =
     (let m = of_nat (digitsValue (ip @ fp)) / 10 ^ length fp
      in if 0 \<le> e then m * 10 ^ nat e else m / 10 ^ nat (- e))"

text \<open>
  An unsigned decimal literal at the start of the text: integer digits, an optional
  point with fraction digits, an optional exponent. It returns the two digit strings,
  whether a point was read, the exponent and the rest.
\<close>

definition scanDecimal :: "string \<Rightarrow> string \<times> bool \<times> string \<times> int \<times> string" where
  "scanDecimal s =
     (let ip = takeWhile isDigit s; s1 = dropWhile isDigit s;
          (point, fp, s2) =
             (case s1 of
                [] \<Rightarrow> (False, [], s1)
              | c # r \<Rightarrow>
                  if c = CHR ''.'' then (True, takeWhile isDigit r, dropWhile isDigit r)
                  else (False, [], s1))
      in if ip = [] \<and> fp = [] then (ip, point, fp, 0, s)
         else (case scanExponent s2 of
                 None \<Rightarrow> (ip, point, fp, 0, s2)
               | Some (e, s3) \<Rightarrow> (ip, point, fp, e, s3)))"

text \<open>A JSON number: optional minus, no leading zero, digits after a point.\<close>

definition json_number :: "string \<Rightarrow> (rat \<times> string) option" where
  "json_number s =
     (let (neg, s0) =
            (case s of
               [] \<Rightarrow> (False, s)
             | c # r \<Rightarrow> if c = CHR ''-'' then (True, r) else (False, s));
          (ip, point, fp, e, rest) = scanDecimal s0
      in if ip = [] \<or> (1 < length ip \<and> take 1 ip = ''0'') \<or> (point \<and> fp = []) then None
         else Some (if neg then - decimalValue ip fp e else decimalValue ip fp e, rest))"

definition unescape :: "char \<Rightarrow> char option" where
  "unescape c =
     map_of [(CHR 0x22, CHR 0x22), (CHR 0x5C, CHR 0x5C), (CHR ''/'', CHR ''/''),
             (CHR ''b'', CHR 0x08), (CHR ''f'', CHR 0x0C), (CHR ''n'', CHR 0x0A),
             (CHR ''r'', CHR 0x0D), (CHR ''t'', CHR 0x09)] c"

definition isControl :: "char \<Rightarrow> bool" where
  "isControl c = ((of_char c :: nat) < 32)"

text \<open>The characters of a string after its opening quote, and what follows the closing one.\<close>

fun json_string_body :: "string \<Rightarrow> (string \<times> string) option" where
  "json_string_body [] = None"
| "json_string_body (c # cs) =
     (if c = CHR 0x22 then Some ([], cs)
      else if c = CHR 0x5C then
        (case cs of
           [] \<Rightarrow> None
         | e # cs' \<Rightarrow>
             if e = CHR ''u'' then
               (let hex = take 4 cs'
                in if length hex = 4 \<and> list_all (isDigitOf 16) hex \<and> digitsValueOf 16 hex < 256
                   then (case json_string_body (drop 4 cs') of
                           None \<Rightarrow> None
                         | Some (t, r) \<Rightarrow> Some (char_of (digitsValueOf 16 hex) # t, r))
                   else None)
             else
               (case unescape e of
                  None \<Rightarrow> None
                | Some d \<Rightarrow>
                    (case json_string_body cs' of
                       None \<Rightarrow> None
                     | Some (t, r) \<Rightarrow> Some (d # t, r))))
      else if isControl c then None
      else
        (case json_string_body cs of
           None \<Rightarrow> None
         | Some (t, r) \<Rightarrow> Some (c # t, r)))"

definition isJsonSpace :: "char \<Rightarrow> bool" where
  "isJsonSpace c = (c \<in> set [CHR '' '', CHR 0x09, CHR 0x0A, CHR 0x0D])"

definition skipWS :: "string \<Rightarrow> string" where
  "skipWS s = dropWhile isJsonSpace s"

fun json_value :: "nat \<Rightarrow> string \<Rightarrow> (json \<times> string) option"
  and json_members :: "nat \<Rightarrow> string \<Rightarrow> ((string \<times> json) list \<times> string) option"
  and json_elements :: "nat \<Rightarrow> string \<Rightarrow> (json list \<times> string) option"
where
  "json_value 0 s = None"
| "json_value (Suc n) s =
     (case skipWS s of
        [] \<Rightarrow> None
      | c # cs \<Rightarrow>
          if c = CHR ''{'' then
            (case skipWS cs of
               [] \<Rightarrow> None
             | d # r \<Rightarrow>
                 if d = CHR ''}'' then Some (JObject [], r)
                 else (case json_members n cs of
                         None \<Rightarrow> None
                       | Some (ms, r') \<Rightarrow> Some (JObject ms, r')))
          else if c = CHR ''['' then
            (case skipWS cs of
               [] \<Rightarrow> None
             | d # r \<Rightarrow>
                 if d = CHR '']'' then Some (JArray [], r)
                 else (case json_elements n cs of
                         None \<Rightarrow> None
                       | Some (vs, r') \<Rightarrow> Some (JArray vs, r')))
          else if c = CHR 0x22 then
            (case json_string_body cs of
               None \<Rightarrow> None
             | Some (t, r) \<Rightarrow> Some (JString t, r))
          else if startsWith (c # cs) ''true'' then Some (JBool True, drop 4 (c # cs))
          else if startsWith (c # cs) ''false'' then Some (JBool False, drop 5 (c # cs))
          else if startsWith (c # cs) ''null'' then Some (JNull, drop 4 (c # cs))
          else (case json_number (c # cs) of
                  None \<Rightarrow> None
                | Some (x, r) \<Rightarrow> Some (JNumber (Num x), r)))"
| "json_members 0 s = None"
| "json_members (Suc n) s =
     (case skipWS s of
        [] \<Rightarrow> None
      | c # cs \<Rightarrow>
          if c \<noteq> CHR 0x22 then None
          else
            (case json_string_body cs of
               None \<Rightarrow> None
             | Some (k, r) \<Rightarrow>
                 (case skipWS r of
                    [] \<Rightarrow> None
                  | d # r1 \<Rightarrow>
                      if d \<noteq> CHR '':'' then None
                      else
                        (case json_value n r1 of
                           None \<Rightarrow> None
                         | Some (v, r2) \<Rightarrow>
                             (case skipWS r2 of
                                [] \<Rightarrow> None
                              | e # r3 \<Rightarrow>
                                  if e = CHR ''}'' then Some ([(k, v)], r3)
                                  else if e = CHR '','' then
                                    (case json_members n r3 of
                                       None \<Rightarrow> None
                                     | Some (ms, r4) \<Rightarrow> Some ((k, v) # ms, r4))
                                  else None)))))"
| "json_elements 0 s = None"
| "json_elements (Suc n) s =
     (case json_value n s of
        None \<Rightarrow> None
      | Some (v, r) \<Rightarrow>
          (case skipWS r of
             [] \<Rightarrow> None
           | e # r1 \<Rightarrow>
               if e = CHR '']'' then Some ([v], r1)
               else if e = CHR '','' then
                 (case json_elements n r1 of
                    None \<Rightarrow> None
                  | Some (vs, r2) \<Rightarrow> Some (v # vs, r2))
               else None))"

definition json_reader :: "string \<Rightarrow> json option" where
  "json_reader s =
     (case json_value (Suc (length s)) s of
        None \<Rightarrow> None
      | Some (v, r) \<Rightarrow> if skipWS r = [] then Some v else None)"

text \<open>
  Reading a property of a parsed value: \<open>None\<close> for \<^verbatim>\<open>undefined\<close>. Of a
  repeated key the last value counts, as in \<^verbatim>\<open>JSON.parse\<close>. (The four properties
  the router reads are none of the names an object inherits.)
\<close>

fun get_prop :: "json \<Rightarrow> string \<Rightarrow> json option" where
  "get_prop (JObject ms) k = map_of (rev ms) k"
| "get_prop _ k = None"

text \<open>
  Coercion of a string to a number, as \<^verbatim>\<open>Math.min\<close> applies it. White space is
  trimmed. The empty string is \<open>0\<close>; \<^verbatim>\<open>0x\<close>, \<^verbatim>\<open>0o\<close> and \<^verbatim>\<open>0b\<close> (in either
  case) start an unsigned integer in base 16, 8 and 2; otherwise an optional sign is
  followed by \<^verbatim>\<open>Infinity\<close> or by a decimal literal, with digits before or after the
  point and an optional exponent. Anything else is \<open>NaN\<close>.
\<close>

definition radix_prefix :: "string \<Rightarrow> nat option" where
  "radix_prefix t =
     map_of [(''0x'', 16), (''0X'', 16), (''0o'', 8), (''0O'', 8), (''0b'', 2), (''0B'', 2)]
       (take 2 t)"

definition StringToNumber :: "string \<Rightarrow> jsnum" where
  "StringToNumber s =
     (let t = trim s
      in if t = [] then Num 0
         else
           (case radix_prefix t of
              Some base \<Rightarrow>
                (let ds = drop 2 t
                 in if ds \<noteq> [] \<and> list_all (isDigitOf base) ds
                    then Num (of_nat (digitsValueOf base ds))
                    else NaN)
            | None \<Rightarrow>
                (let (neg, t0) =
                       (case t of
                          [] \<Rightarrow> (False, t)
                        | c # r \<Rightarrow>
                            if c = CHR ''-'' then (True, r)
                            else if c = CHR ''+'' then (False, r)
                            else (False, t));
                     (ip, point, fp, e, rest) = scanDecimal t0
                 in if t0 = ''Infinity'' then (if neg then NegInf else PosInf)
                    else if (ip = [] \<and> fp = []) \<or> rest \<noteq> [] then NaN
                    else Num (if neg then - decimalValue ip fp e else decimalValue ip fp e))))"

text \<open>
  Coercion of a parsed value to a number. An array is coerced through its string form:
  empty or holding only \<^verbatim>\<open>null\<close> it is \<open>0\<close>, holding one number, string or array it
  is that element's number, and otherwise (a boolean or object element, or a comma
  between elements) \<open>NaN\<close>.
\<close>

fun ToNumber :: "json \<Rightarrow> jsnum" where
  "ToNumber JNull = Num 0"
| "ToNumber (JBool b) = Num (if b then 1 else 0)"
| "ToNumber (JNumber x) = x"
| "ToNumber (JString s) = StringToNumber s"
| "ToNumber (JArray []) = Num 0"
| "ToNumber (JArray [JNull]) = Num 0"
| "ToNumber (JArray [JBool b]) = NaN"
| "ToNumber (JArray [JObject ms]) = NaN"
| "ToNumber (JArray [v]) = ToNumber v"
| "ToNumber (JArray (v # w # vs)) = NaN"
| "ToNumber (JObject ms) = NaN"

text \<open>Truthiness of a property value; \<^verbatim>\<open>undefined\<close> is falsy.\<close>

fun truthy :: "json option \<Rightarrow> bool" where
  "truthy None = False"
| "truthy (Some JNull) = False"
| "truthy (Some (JBool b)) = b"
| "truthy (Some (JNumber x)) = truthy_num x"
| "truthy (Some (JString s)) = (s \<noteq> [])"
| "truthy (Some (JArray vs)) = True"
| "truthy (Some (JObject ms)) = True"

section \<open>router.ts\<close>

datatype Mode = research_mode | standard_mode

record RouterInput =
  query :: string
  mode :: "Mode option"
  ri_conversationHistory :: "Message list option"
  ri_context :: "string option"

text \<open>
  \<open>ri_context\<close> holds \<^verbatim>\<open>JSON.stringify(context)\<close> when a context object is given.
  In a decision, \<open>reasoning\<close> and \<open>complexitySignals\<close> are whatever the classifier
  sent, so they are JSON values; the \<^verbatim>\<open>timestamp\<close> is left out.
\<close>

record RouterDecision =
  route :: RouteType
  confidence :: jsnum
  reasoning :: "json option"
  complexitySignals :: json
  bypassed :: bool
  latencyMs :: "int option"

record RouterStats =
  totalRouted :: nat
  bypassedCount :: nat
  routeDistribution :: "RouteType \<Rightarrow> nat"
  avgLatencyMs :: rat
  avgConfidence :: jsnum

text \<open>A pattern is the predicate \<^verbatim>\<open>pattern.test\<close> (the defaults carry the \<^verbatim>\<open>i\<close> flag only).\<close>

record RouterConfig =
  complexSignals :: "string list"
  researchSignals :: "string list"
  creativeSignals :: "string list"
  simplePatterns :: "(string \<Rightarrow> bool) list"
  systemPrompt :: string

record RouterConfigOptions =
  o_complexSignals :: "string list option"
  o_researchSignals :: "string list option"
  o_creativeSignals :: "string list option"
  o_simplePatterns :: "(string \<Rightarrow> bool) list option"
  o_systemPrompt :: "string option"

definition DEFAULT_COMPLEX_SIGNALS :: "string list" where
  "DEFAULT_COMPLEX_SIGNALS =
    [''compare'', ''contrast'', ''analyze'', ''explain why'', ''explain how'',
     ''how does'', ''what if'', ''relationship between'', ''implications'',
     ''trade-offs'', ''advantages'', ''disadvantages'', ''pros and cons'',
     ''difference between'', ''similar to'', ''versus'', ''vs'',
     ''in-depth'', ''detailed'', ''comprehensive'', ''thoroughly'',
     ''multiple'', ''several'', ''various'', ''all the'']"

definition DEFAULT_RESEARCH_SIGNALS :: "string list" where
  "DEFAULT_RESEARCH_SIGNALS =
    [''methodology'', ''approach'', ''theory'', ''concept'', ''framework'',
     ''hypothesis'', ''findings'', ''results'', ''conclusion'', ''evidence'',
     ''literature'', ''study'', ''research'', ''paper'', ''article'',
     ''according to'', ''based on'', ''in the context of'']"

definition DEFAULT_CREATIVE_SIGNALS :: "string list" where
  "DEFAULT_CREATIVE_SIGNALS =
    [''imagine'', ''what kind of'', ''possibilities'', ''ideas for'',
     ''brainstorm'', ''creative'', ''innovative'', ''future'',
     ''could'', ''might'', ''potential'', ''explore'']"

text \<open>
  The six default patterns. All are anchored at the start and ignore case; \<open>after_prefix\<close>
  gives what follows each of the listed beginnings that the query has, and \<open>dots_to_end\<close>
  is \<^verbatim>\<open>.{lo,hi}$\<close>: between \<open>lo\<close> and \<open>hi\<close> characters, none a line terminator,
  up to the end.
\<close>

definition after_prefix :: "string list \<Rightarrow> string \<Rightarrow> string list" where
  "after_prefix ps q = map (\<lambda>p. drop (length p) q) (filter (startsWith (toLowerCase q)) ps)"

definition isLineTerminator :: "char \<Rightarrow> bool" where
  "isLineTerminator c = (c = CHR 0x0A \<or> c = CHR 0x0D)"

definition dots_to_end :: "nat \<Rightarrow> nat \<Rightarrow> string \<Rightarrow> bool" where
  "dots_to_end lo hi s = (lo \<le> length s \<and> length s \<le> hi \<and> \<not> list_ex isLineTerminator s)"

definition pattern_what_is :: "string \<Rightarrow> bool" where
  "pattern_what_is q =
     list_ex (\<lambda>r. dots_to_end 1 50 r \<or> (r \<noteq> [] \<and> last r = CHR ''?'' \<and> dots_to_end 1 50 (butlast r)))
       (after_prefix [''what is '', ''what are ''] q)"

definition pattern_list_show :: "string \<Rightarrow> bool" where
  "pattern_list_show q =
     list_ex (dots_to_end 1 40) (after_prefix [''list '', ''show '', ''tell me '', ''give me ''] q)"

definition pattern_what_which :: "string \<Rightarrow> bool" where
  "pattern_what_which q =
     list_ex (\<lambda>r. after_prefix [''technologie'', ''language'', ''skill'', ''tool''] r \<noteq> [])
       (after_prefix [''what '', ''which ''] q)"

definition pattern_how :: "string \<Rightarrow> bool" where
  "pattern_how q = (after_prefix [''how long'', ''how many'', ''how much''] q \<noteq> [])"

definition pattern_where :: "string \<Rightarrow> bool" where
  "pattern_where q = (after_prefix [''where is'', ''where does'', ''where did''] q \<noteq> [])"

definition pattern_when_did :: "string \<Rightarrow> bool" where
  "pattern_when_did q = (after_prefix [''when did''] q \<noteq> [])"

definition DEFAULT_SIMPLE_PATTERNS :: "(string \<Rightarrow> bool) list" where
  "DEFAULT_SIMPLE_PATTERNS =
    [pattern_what_is, pattern_list_show, pattern_what_which,
     pattern_how, pattern_where, pattern_when_did]"

definition nl :: string where
  "nl = [CHR 0x0A]"

definition DEFAULT_ROUTER_PROMPT :: string where
  \<open>DEFAULT_ROUTER_PROMPT =
    ''You are a query routing assistant. Analyze user queries and determine the optimal processing route.'' @ nl @
    nl @
    ''## Available Routes'' @ nl @
    nl @
    ''### FAST'' @ nl @
    ''- For: Simple factual questions, direct lookups, basic info'' @ nl @
    ''- Signals: Short queries, clear intent, single topic, "what/who/when" questions'' @ nl @
    nl @
    ''### STANDARD'' @ nl @
    ''- For: Normal complexity questions requiring synthesis'' @ nl @
    ''- Signals: Multi-part questions, "how/why" questions, needs context integration'' @ nl @
    nl @
    ''### DEEP'' @ nl @
    ''- For: Complex analysis, comparisons, multi-step reasoning'' @ nl @
    ''- Signals: Comparative questions, theoretical exploration, connecting multiple concepts'' @ nl @
    nl @
    ''### CREATIVE'' @ nl @
    ''- For: Open-ended exploration, brainstorming, hypothetical scenarios'' @ nl @
    ''- Signals: Exploratory language, no single right answer, future-focused'' @ nl @
    nl @
    ''### RESEARCH'' @ nl @
    ''- For: Deep academic discussion, methodology-focused queries'' @ nl @
    ''- Signals: References to methodology, findings, theories; needs extensive context'' @ nl @
    nl @
    ''## Instructions'' @ nl @
    ''1. Analyze the query for complexity signals'' @ nl @
    ''2. Consider the mode (research vs standard)'' @ nl @
    ''3. Select the most appropriate route'' @ nl @
    ''4. Provide brief reasoning'' @ nl @
    nl @
    ''## Output Format (JSON)'' @ nl @
    ''{'' @ nl @
    ''  "route": "fast|standard|deep|creative|research",'' @ nl @
    ''  "confidence": 0.0-1.0,'' @ nl @
    ''  "reasoning": "Brief explanation",'' @ nl @
    ''  "complexity_signals": ["signal1", "signal2"]'' @ nl @
    ''}''\<close>

record IntelligentRouter =
  r_client :: "anthropic_response client option"
  r_modelId :: string
  r_config :: RouterConfig
  r_stats :: RouterStats

definition initial_stats :: RouterStats where
  "initial_stats =
     \<lparr>totalRouted = 0, bypassedCount = 0, routeDistribution = (\<lambda>r. 0),
      avgLatencyMs = 0, avgConfidence = Num 0\<rparr>"

text \<open>
  The constructor. The client stands for the API key of the environment; the given
  configuration is merged with the defaults. The model id comes from the registry; the
  key \<^verbatim>\<open>SPECIALIZED_MODELS.router\<close> is registered, so of the three outcomes of
  \<^verbatim>\<open>getModelId\<close> only the one with an id is taken.
\<close>

definition merge_config :: "RouterConfigOptions option \<Rightarrow> RouterConfig" where
  "merge_config config =
     \<lparr>complexSignals =
        (case (case config of None \<Rightarrow> None | Some c \<Rightarrow> o_complexSignals c) of
           None \<Rightarrow> DEFAULT_COMPLEX_SIGNALS | Some x \<Rightarrow> x),
      researchSignals =
        (case (case config of None \<Rightarrow> None | Some c \<Rightarrow> o_researchSignals c) of
           None \<Rightarrow> DEFAULT_RESEARCH_SIGNALS | Some x \<Rightarrow> x),
      creativeSignals =
        (case (case config of None \<Rightarrow> None | Some c \<Rightarrow> o_creativeSignals c) of
           None \<Rightarrow> DEFAULT_CREATIVE_SIGNALS | Some x \<Rightarrow> x),
      simplePatterns =
        (case (case config of None \<Rightarrow> None | Some c \<Rightarrow> o_simplePatterns c) of
           None \<Rightarrow> DEFAULT_SIMPLE_PATTERNS | Some x \<Rightarrow> x),
      systemPrompt =
        (case (case config of None \<Rightarrow> None | Some c \<Rightarrow> o_systemPrompt c) of
           None \<Rightarrow> DEFAULT_ROUTER_PROMPT
         | Some x \<Rightarrow> if x = [] then DEFAULT_ROUTER_PROMPT else x)\<rparr>"

definition new_IntelligentRouter ::
  "anthropic_response client option \<Rightarrow> RouterConfigOptions option \<Rightarrow> js_error + IntelligentRouter" where
  "new_IntelligentRouter cl config =
     (case getModelId SPECIALIZED_MODELS_router False of
        Inl e \<Rightarrow> Inl e
      | Inr mid \<Rightarrow>
          Inr \<lparr>r_client = cl, r_modelId = (case mid of Some m \<Rightarrow> m | None \<Rightarrow> ''undefined''),
               r_config = merge_config config, r_stats = initial_stats\<rparr>)"

definition hasComplexSignals :: "RouterConfig \<Rightarrow> string \<Rightarrow> bool" where
  "hasComplexSignals cfg q =
     (let lowerQuery = toLowerCase q
      in list_ex (\<lambda>signal. includes_str lowerQuery signal) (complexSignals cfg))"

definition hasResearchSignals :: "RouterConfig \<Rightarrow> string \<Rightarrow> bool" where
  "hasResearchSignals cfg q =
     (let lowerQuery = toLowerCase q
      in list_ex (\<lambda>signal. includes_str lowerQuery signal) (researchSignals cfg))"

definition hasCreativeSignals :: "RouterConfig \<Rightarrow> string \<Rightarrow> bool" where
  "hasCreativeSignals cfg q =
     (let lowerQuery = toLowerCase q
      in list_ex (\<lambda>signal. includes_str lowerQuery signal) (creativeSignals cfg))"

definition shouldBypass :: "RouterConfig \<Rightarrow> string \<Rightarrow> Mode \<Rightarrow> RouteType option" where
  "shouldBypass cfg q m =
     (if m = research_mode then None
      else
        (let words = splitWS (trim q)
         in if length words < 8 \<and> \<not> hasComplexSignals cfg q
               \<and> list_ex (\<lambda>pattern. pattern q) (simplePatterns cfg)
            then Some ''fast''
            else if length words \<le> 5 \<and> \<not> hasComplexSignals cfg q then Some ''fast''
            else None))"

definition updateStats :: "RouterDecision \<Rightarrow> RouterStats \<Rightarrow> RouterStats" where
  "updateStats decision stats =
     (let n = totalRouted stats + 1
      in \<lparr>totalRouted = n,
          bypassedCount = (if bypassed decision then bypassedCount stats + 1
                           else bypassedCount stats),
          routeDistribution =
            (routeDistribution stats)
              (route decision := routeDistribution stats (route decision) + 1),
          avgLatencyMs =
            ((avgLatencyMs stats * (of_nat n - 1))
               + (case latencyMs decision of None \<Rightarrow> 0 | Some l \<Rightarrow> of_int l)) / of_nat n,
          avgConfidence =
            jdiv (jadd (jmul (avgConfidence stats) (Num (of_nat n - 1))) (confidence decision)) n\<rparr>)"

text \<open>
  \<^verbatim>\<open>text.match(/\{[\s\S]*\}/)\<close>: from the first opening brace to the last closing
  brace after it.
\<close>

definition match_json_block :: "string \<Rightarrow> string option" where
  "match_json_block text =
     (let t = dropWhile (\<lambda>c. c \<noteq> CHR ''{'') text;
          b = rev (dropWhile (\<lambda>c. c \<noteq> CHR ''}'') (rev t))
      in if b = [] then None else Some b)"

record ParsedResponse =
  p_route :: RouteType
  p_confidence :: jsnum
  p_reasoning :: "json option"
  p_complexity_signals :: "json option"

definition parse_failed :: ParsedResponse where
  "parse_failed =
     \<lparr>p_route = ''standard'', p_confidence = Num (1 / 2),
      p_reasoning = Some (JString ''Failed to parse router response''),
      p_complexity_signals = Some (JArray [])\<rparr>"

text \<open>
  \<^verbatim>\<open>parseRouterResponse\<close>, given the \<^verbatim>\<open>JSON.parse\<close> of the runtime. The text
  matched starts with a brace, so what \<^verbatim>\<open>JSON.parse\<close> returns for it is an object.
  \<^verbatim>\<open>validRoutes.includes\<close> holds for a string equal to one of the five names and for
  nothing else.
\<close>

definition parseRouterResponse :: "(string \<Rightarrow> json option) \<Rightarrow> string \<Rightarrow> ParsedResponse" where
  "parseRouterResponse JSON_parse text =
     (case match_json_block text of
        None \<Rightarrow> parse_failed
      | Some jsonMatch \<Rightarrow>
          (case JSON_parse jsonMatch of
             None \<Rightarrow> parse_failed
           | Some parsed \<Rightarrow>
               \<lparr>p_route =
                  (case get_prop parsed ''route'' of
                     Some (JString r) \<Rightarrow> if r \<in> set validRoutes then r else ''standard''
                   | _ \<Rightarrow> ''standard''),
                p_confidence =
                  Math_max (Num 0)
                    (Math_min (Num 1)
                       (if truthy (get_prop parsed ''confidence'')
                        then (case get_prop parsed ''confidence'' of
                                Some v \<Rightarrow> ToNumber v
                              | None \<Rightarrow> Num (7 / 10))
                        else Num (7 / 10))),
                p_reasoning = get_prop parsed ''reasoning'',
                p_complexity_signals = get_prop parsed ''complexity_signals''\<rparr>))"

definition mode_name :: "Mode \<Rightarrow> string" where
  "mode_name m = (case m of research_mode \<Rightarrow> ''research'' | standard_mode \<Rightarrow> ''standard'')"

definition llm_userMessage :: "RouterInput \<Rightarrow> string" where
  \<open>llm_userMessage input =
     ''Query: "'' @ query input @ ''"'' @ nl @ ''Mode: ''
       @ (case mode input of None \<Rightarrow> ''standard'' | Some m \<Rightarrow> mode_name m)
       @ (case ri_context input of None \<Rightarrow> [] | Some c \<Rightarrow> nl @ ''Context: '' @ c)\<close>

definition llm_request :: "IntelligentRouter \<Rightarrow> RouterInput \<Rightarrow> request" where
  "llm_request r input =
     \<lparr>req_model = r_modelId r, req_max_tokens = 256, req_temperature = None,
      req_system = systemPrompt (r_config r),
      req_messages = [\<lparr>role = user, content = llm_userMessage input\<rparr>], req_json = False\<rparr>"

text \<open>
  \<^verbatim>\<open>llmRoute\<close>, given \<^verbatim>\<open>JSON.parse\<close> and the client: the remote call and the check of the first content
  block may throw; otherwise the parsed answer becomes the decision. \<open>t0\<close> and \<open>t1\<close>
  are the clock readings at the start of \<^verbatim>\<open>route\<close> and when the decision is built.
\<close>

definition llmRoute ::
  "(string \<Rightarrow> json option) \<Rightarrow> IntelligentRouter \<Rightarrow> anthropic_response client \<Rightarrow>
   RouterInput \<Rightarrow> int \<Rightarrow> int \<Rightarrow> js_error + RouterDecision" where
  "llmRoute JSON_parse r cl input t0 t1 =
     (case cl 0 (llm_request r input) of
        Inl e \<Rightarrow> Inl e
      | Inr response \<Rightarrow>
          (case an_content response of
             [] \<Rightarrow> Inl (Error ''Cannot read properties of undefined (reading 'type')'')
           | other_block # _ \<Rightarrow> Inl (Error ''Unexpected response format from router'')
           | text_block t # _ \<Rightarrow>
               (let parsed = parseRouterResponse JSON_parse t
                in Inr \<lparr>route = p_route parsed, confidence = p_confidence parsed,
                        reasoning = p_reasoning parsed,
                        complexitySignals =
                          (if truthy (p_complexity_signals parsed)
                           then (case p_complexity_signals parsed of
                                   Some v \<Rightarrow> v | None \<Rightarrow> JArray [])
                           else JArray []),
                        bypassed = False, latencyMs = Some (t1 - t0)\<rparr>)))"

definition heuristicDecision :: "RouterConfig \<Rightarrow> string \<Rightarrow> Mode \<Rightarrow> int \<Rightarrow> int \<Rightarrow> RouterDecision" where
  "heuristicDecision cfg q m t0 t1 =
     (let lowerQuery = toLowerCase q;
          wordCount = length (splitWS (trim q));
          (route', confidence', reasoning', signals) =
            (if m = research_mode then
               (if hasResearchSignals cfg q then
                  (''research'', 17 / 20, ''Research mode with research-related signals'',
                   [''research_mode'', ''research_signals''])
                else
                  (''standard'', 3 / 4, ''Research mode with general query'',
                   [''research_mode'']))
             else if hasCreativeSignals cfg q then
               (''creative'', 4 / 5, ''Query contains creative/exploratory language'',
                filter (\<lambda>s. includes_str lowerQuery s) (creativeSignals cfg))
             else if hasComplexSignals cfg q then
               (''deep'', 4 / 5, ''Query contains complexity signals'',
                filter (\<lambda>s. includes_str lowerQuery s) (complexSignals cfg))
             else if wordCount < 10 \<and> list_ex (\<lambda>p. p q) (simplePatterns cfg) then
               (''fast'', 17 / 20, ''Simple query pattern detected'', [''simple_pattern''])
             else
               (''standard'', 7 / 10, ''Heuristic routing based on query analysis'', []))
      in \<lparr>route = route', confidence = Num confidence', reasoning = Some (JString reasoning'),
          complexitySignals = JArray (map JString signals),
          bypassed = False, latencyMs = Some (t1 - t0)\<rparr>)"

text \<open>\<^verbatim>\<open>heuristicRoute\<close> builds the decision, records it and returns it.\<close>

definition heuristicRoute ::
  "IntelligentRouter \<Rightarrow> string \<Rightarrow> Mode \<Rightarrow> int \<Rightarrow> int \<Rightarrow> RouterDecision \<times> IntelligentRouter" where
  "heuristicRoute r q m t0 t1 =
     (let decision = heuristicDecision (r_config r) q m t0 t1
      in (decision, r\<lparr>r_stats := updateStats decision (r_stats r)\<rparr>))"

text \<open>
  \<^verbatim>\<open>route\<close>, given the \<^verbatim>\<open>JSON.parse\<close> of the runtime, returns the decision,
  the router with its statistics updated, and the requests sent to the classifier.
\<close>

definition route_query ::
  "(string \<Rightarrow> json option) \<Rightarrow> IntelligentRouter \<Rightarrow> RouterInput \<Rightarrow> int \<Rightarrow> int \<Rightarrow>
   RouterDecision \<times> IntelligentRouter \<times> request list" where
  "route_query JSON_parse r input t0 t1 =
     (let startTime = t0;
          mode' = (case mode input of None \<Rightarrow> standard_mode | Some m \<Rightarrow> m)
      in case shouldBypass (r_config r) (query input) mode' of
           Some bypassRoute \<Rightarrow>
             (let decision =
                    \<lparr>route = bypassRoute, confidence = Num (19 / 20),
                     reasoning = Some (JString ''Query matched simple pattern - router bypassed''),
                     complexitySignals = JArray [], bypassed = True,
                     latencyMs = Some (t1 - startTime)\<rparr>
              in (decision, r\<lparr>r_stats := updateStats decision (r_stats r)\<rparr>, []))
         | None \<Rightarrow>
             (case r_client r of
                None \<Rightarrow>
                  (let (decision, r') = heuristicRoute r (query input) mode' startTime t1
                   in (decision, r', []))
              | Some cl \<Rightarrow>
                  (case llmRoute JSON_parse r cl input startTime t1 of
                     Inr decision \<Rightarrow>
                       (decision, r\<lparr>r_stats := updateStats decision (r_stats r)\<rparr>,
                        [llm_request r input])
                   | Inl error \<Rightarrow>
                       (let (decision, r') = heuristicRoute r (query input) mode' startTime t1
                        in (decision, r', [llm_request r input])))))"

definition getStats :: "IntelligentRouter \<Rightarrow> RouterStats" where
  "getStats r = r_stats r"

definition resetStats :: "IntelligentRouter \<Rightarrow> IntelligentRouter" where
  "resetStats r = r\<lparr>r_stats := initial_stats\<rparr>"

text \<open>
  For stating the properties of the router: a confidence in the unit interval; a
  confidence value in the classifier's answer that is absent, \<^verbatim>\<open>null\<close>, a boolean or
  a number; the latency \<^verbatim>\<open>updateStats\<close> records for a decision; the sum of a list of
  numbers, by the addition of the code.
\<close>

fun in_unit_interval :: "jsnum \<Rightarrow> bool" where
  "in_unit_interval (Num c) = (0 \<le> c \<and> c \<le> 1)"
| "in_unit_interval PosInf = False"
| "in_unit_interval NegInf = False"
| "in_unit_interval NaN = False"


text \<open>
  A run of the router: each call comes with the classifier client in force at that
  call (its answers may change from call to call) and its two clock readings.
\<close>

fun route_all ::
  "(string \<Rightarrow> json option) \<Rightarrow> IntelligentRouter \<Rightarrow>
   (anthropic_response client option \<times> RouterInput \<times> int \<times> int) list \<Rightarrow>
   RouterDecision list \<times> IntelligentRouter" where
  "route_all JSON_parse r [] = ([], r)"
| "route_all JSON_parse r ((cl, input, t0, t1) # calls) =
     (let (d, r', sent) = route_query JSON_parse (r\<lparr>r_client := cl\<rparr>) input t0 t1;
          (ds, r'') = route_all JSON_parse r' calls
      in (d # ds, r''))"

definition recorded_latency :: "RouterDecision \<Rightarrow> rat" where
  "recorded_latency d = (case latencyMs d of None \<Rightarrow> 0 | Some l \<Rightarrow> of_int l)"

definition jsum :: "jsnum list \<Rightarrow> jsnum" where
  "jsum xs = foldl jadd (Num 0) xs"

section \<open>executor.ts\<close>

record ExecutionContext =
  ec_query :: string
  ec_mode :: "Mode option"
  routerDecision :: "RouterDecision option"
  ec_systemPrompt :: "string option"
  conversationHistory :: "Message list option"
  retrievedContext :: "string option"

record Timing =
  totalMs :: int
  routingMs :: "int option"
  generationMs :: int

record Costs =
  estimated :: jsnum
  c_inputTokens :: nat
  c_outputTokens :: nat

record Metadata =
  fallbackUsed :: bool
  fallbackReason :: "string option"
  routerBypassed :: "bool option"

record ExecutionResult =
  answer :: string
  er_route :: RouteType
  er_model :: string
  er_provider :: string
  er_confidence :: jsnum
  timing :: Timing
  costs :: Costs
  metadata :: Metadata

definition DEFAULT_SYSTEM_PROMPTS :: "RouteType \<rightharpoonup> string" where
  "DEFAULT_SYSTEM_PROMPTS = map_of
    [(''fast'',
        ''You are a helpful AI assistant. Provide quick, direct answers to simple questions.'' @ nl @
        ''Be concise and factual. Use the provided context to answer accurately.'' @ nl @
        ''Format responses with markdown when helpful.''),
     (''standard'',
        ''You are a helpful AI assistant. Provide balanced, well-structured responses.'' @ nl @
        ''Your answers should be:'' @ nl @
        ''- Clear and informative'' @ nl @
        ''- Based on provided context'' @ nl @
        ''- Under 200 words unless more detail is needed'' @ nl @
        ''Use markdown formatting for readability.''),
     (''deep'',
        ''You are an AI assistant providing in-depth analysis.'' @ nl @
        ''For this complex query:'' @ nl @
        ''- Provide thorough, well-structured analysis'' @ nl @
        ''- Draw connections between different concepts'' @ nl @
        ''- Include specific details and examples'' @ nl @
        ''- Structure your response with clear sections'' @ nl @
        ''Base your response on provided context. Acknowledge limitations if context is insufficient.''),
     (''creative'',
        ''You are an AI assistant helping explore possibilities and ideas.'' @ nl @
        ''For this exploratory question:'' @ nl @
        ''- Think creatively about possibilities'' @ nl @
        ''- Suggest innovative approaches'' @ nl @
        ''- Be enthusiastic but grounded'' @ nl @
        ''- Encourage further exploration'' @ nl @
        ''Use context as a foundation for creative applications.''),
     (''research'',
        ''You are a research assistant specializing in deep analysis.'' @ nl @
        ''Your responses should be:'' @ nl @
        ''- Academic but approachable'' @ nl @
        ''- Precise in attributing claims'' @ nl @
        ''- Helpful in explaining concepts in depth'' @ nl @
        ''- Encouraging of critical thinking'' @ nl @
        ''Clearly distinguish between provided information and exploratory discussion.'')]"

text \<open>
  \<^verbatim>\<open>TimingTracker\<close>: the four clock readings of one \<^verbatim>\<open>execute\<close> are given: at
  construction, at \<^verbatim>\<open>mark\<close>, at \<^verbatim>\<open>measure\<close> and at \<^verbatim>\<open>getTotalMs\<close>.
  \<^verbatim>\<open>measure\<close> takes the start time instead of a mark that is \<open>0\<close>.
\<close>

record Clock =
  t_start :: int
  t_mark :: int
  t_measure :: int
  t_total :: int

definition measure_generation :: "Clock \<Rightarrow> int" where
  "measure_generation clk =
     (let startTime = (if t_mark clk \<noteq> 0 then t_mark clk else t_start clk)
      in t_measure clk - startTime)"

definition getTotalMs :: "Clock \<Rightarrow> int" where
  "getTotalMs clk = t_total clk - t_start clk"

record RouteExecutor =
  systemPrompts :: "RouteType \<rightharpoonup> string"
  providerManager :: "AIProvider list"

record ExecutorConfig =
  x_systemPrompts :: "(RouteType \<rightharpoonup> string) option"
  x_providerManager :: "AIProvider list option"

text \<open>
  The constructor; without a provider manager in the configuration it builds one from
  the environment.
\<close>

definition new_RouteExecutor :: "Environment \<Rightarrow> ExecutorConfig option \<Rightarrow> RouteExecutor" where
  "new_RouteExecutor env config =
     \<lparr>systemPrompts =
        DEFAULT_SYSTEM_PROMPTS
          ++ (case (case config of None \<Rightarrow> None | Some c \<Rightarrow> x_systemPrompts c) of
                None \<Rightarrow> Map.empty | Some m \<Rightarrow> m),
      providerManager =
        (case (case config of None \<Rightarrow> None | Some c \<Rightarrow> x_providerManager c) of
           None \<Rightarrow> new_ProviderManager env None
         | Some pm \<Rightarrow> pm)\<rparr>"

definition buildMessages :: "ExecutionContext \<Rightarrow> Message list" where
  "buildMessages ctx =
     (let messages = (case conversationHistory ctx of None \<Rightarrow> [] | Some h \<Rightarrow> h);
          userMessage =
            (case retrievedContext ctx of
               None \<Rightarrow> ec_query ctx
             | Some rc \<Rightarrow>
                 if rc = [] then ec_query ctx
                 else ''Context:'' @ nl @ rc @ nl @ nl @ ''Question: '' @ ec_query ctx)
      in messages @ [\<lparr>role = user, content = userMessage\<rparr>])"

text \<open>\<^verbatim>\<open>Math.ceil(text.length / 4)\<close>.\<close>

definition estimateTokens :: "string \<Rightarrow> nat" where
  "estimateTokens text = (length text + 3) div 4"

definition estimateCostFromTokens :: "string \<Rightarrow> nat \<Rightarrow> nat \<Rightarrow> jsnum" where
  "estimateCostFromTokens model inputTokens' outputTokens' =
     (case estimateCost model (of_nat inputTokens') (of_nat outputTokens') of
        Inr c \<Rightarrow> c
      | Inl e \<Rightarrow>
          (let inputCost' = (of_nat inputTokens' / 1000000) * 3;
               outputCost' = (of_nat outputTokens' / 1000000) * 15
           in Num (inputCost' + outputCost')))"

text \<open>
  \<^verbatim>\<open>execute\<close>. It fails where \<^verbatim>\<open>getRouteModel\<close> or the provider manager fails;
  the \<^verbatim>\<open>catch\<close> around the provider call sets its two local variables and throws
  the error again. Only the five routes get past \<^verbatim>\<open>getRouteModel\<close>: for them the
  route configuration is an entry of the table and the system prompts are defined (the
  other readings of both are written out all the same). The second component lists the
  providers tried.
\<close>

definition execute ::
  "RouteExecutor \<Rightarrow> RouteType \<Rightarrow> ExecutionContext \<Rightarrow> Clock \<Rightarrow>
   (js_error + ExecutionResult) \<times> (string \<times> request list) list" where
  "execute ex route' ctx clk =
     (let routeConfig' = getRouteConfig route'
      in case getRouteModel route' of
        Inl e \<Rightarrow> (Inl e, [])
      | Inr primaryModel' \<Rightarrow>
          (if routeConfig' = Absent then
             (Inl (Error ''Cannot read properties of undefined (reading 'temperature')''), [])
           else
               (let messages = buildMessages ctx;
                    systemPrompt' =
                      (case ec_systemPrompt ctx of
                         Some sp \<Rightarrow>
                           if sp \<noteq> [] then sp
                           else (case systemPrompts ex route' of None \<Rightarrow> [] | Some d \<Rightarrow> d)
                       | None \<Rightarrow> (case systemPrompts ex route' of None \<Rightarrow> [] | Some d \<Rightarrow> d));
                    chatOptions =
                      (case routeConfig' of
                         Own routeConfig \<Rightarrow>
                           Some \<lparr>jsonMode = None, opt_maxTokens = Some (maxTokens routeConfig),
                                 opt_temperature = Some (temperature routeConfig)\<rparr>
                       | _ \<Rightarrow>
                           Some \<lparr>jsonMode = None, opt_maxTokens = None,
                                 opt_temperature = None\<rparr>)
                in case ProviderManager_chat (providerManager ex) messages systemPrompt' chatOptions of
                     (Inl error, tried) \<Rightarrow>
                       (let fallbackUsed' = True;
                            fallbackReason' = Some (message error)
                        in (Inl error, tried))
                   | (Inr result, tried) \<Rightarrow>
                       (let fallbackUsed' = False;
                            fallbackReason' = None;
                            generationMs' = measure_generation clk;
                            inputTokens' =
                              (case cr_usage result of
                                 Some u \<Rightarrow>
                                   if inputTokens u \<noteq> 0 then inputTokens u
                                   else estimateTokens (systemPrompt' @ concat (map content messages))
                               | None \<Rightarrow>
                                   estimateTokens (systemPrompt' @ concat (map content messages)));
                            outputTokens' =
                              (case cr_usage result of
                                 Some u \<Rightarrow>
                                   if outputTokens u \<noteq> 0 then outputTokens u
                                   else estimateTokens (cr_content result)
                               | None \<Rightarrow> estimateTokens (cr_content result))
                        in (Inr \<lparr>answer = cr_content result,
                                 er_route = route',
                                 er_model = cr_model result,
                                 er_provider = cr_provider result,
                                 er_confidence =
                                   (case routerDecision ctx of
                                      Some d \<Rightarrow>
                                        if truthy_num (confidence d) then confidence d
                                        else Num (4 / 5)
                                    | None \<Rightarrow> Num (4 / 5)),
                                 timing =
                                   \<lparr>totalMs = getTotalMs clk,
                                    routingMs =
                                      (case routerDecision ctx of
                                         Some d \<Rightarrow> latencyMs d
                                       | None \<Rightarrow> None),
                                    generationMs = generationMs'\<rparr>,
                                 costs =
                                   \<lparr>estimated =
                                      estimateCostFromTokens (cr_model result) inputTokens' outputTokens',
                                    c_inputTokens = inputTokens',
                                    c_outputTokens = outputTokens'\<rparr>,
                                 metadata =
                                   \<lparr>fallbackUsed = fallbackUsed',
                                    fallbackReason = fallbackReason',
                                    routerBypassed =
                                      (case routerDecision ctx of
                                         Some d \<Rightarrow> Some (bypassed d)
                                       | None \<Rightarrow> None)\<rparr>\<rparr>,
                            tried)))))"

text \<open>
  For stating what \<^verbatim>\<open>execute\<close> passes to the provider manager: the system prompt
  it selects and the options it takes from the route configuration.
\<close>

definition systemPrompt_for :: "RouteExecutor \<Rightarrow> RouteType \<Rightarrow> ExecutionContext \<Rightarrow> string" where
  "systemPrompt_for ex route' ctx =
     (case ec_systemPrompt ctx of
        Some sp \<Rightarrow>
          if sp \<noteq> [] then sp
          else (case systemPrompts ex route' of None \<Rightarrow> [] | Some d \<Rightarrow> d)
      | None \<Rightarrow> (case systemPrompts ex route' of None \<Rightarrow> [] | Some d \<Rightarrow> d))"

definition chatOptions_for :: "RouteType \<Rightarrow> ChatOptions option" where
  "chatOptions_for route' =
     (case getRouteConfig route' of
        Own routeConfig \<Rightarrow>
          Some \<lparr>jsonMode = None, opt_maxTokens = Some (maxTokens routeConfig),
                opt_temperature = Some (temperature routeConfig)\<rparr>
      | _ \<Rightarrow> Some \<lparr>jsonMode = None, opt_maxTokens = None, opt_temperature = None\<rparr>)"

text \<open>The default price pair: USD 3 and USD 15 for a million tokens in and out.\<close>

definition default_cost :: "nat \<Rightarrow> nat \<Rightarrow> rat" where
  "default_cost i j = (of_nat i / 1000000) * 3 + (of_nat j / 1000000) * 15"

section \<open>index.ts\<close>

text \<open>
  The orchestrator: \<^verbatim>\<open>process\<close> routes the query and executes the chosen route with
  the decision attached to the context; \<^verbatim>\<open>processWithRoute\<close> executes directly.
\<close>

record Orchestrator =
  o_router :: IntelligentRouter
  o_executor :: RouteExecutor

definition process ::
  "(string \<Rightarrow> json option) \<Rightarrow> Orchestrator \<Rightarrow> ExecutionContext \<Rightarrow> int \<Rightarrow> int \<Rightarrow> Clock \<Rightarrow>
   (js_error + ExecutionResult) \<times> Orchestrator" where
  "process JSON_parse orch ctx t0 t1 clk =
     (let (decision, router', sent) =
            route_query JSON_parse (o_router orch)
              \<lparr>query = ec_query ctx, mode = ec_mode ctx,
               ri_conversationHistory = conversationHistory ctx, ri_context = None\<rparr> t0 t1
      in (fst (execute (o_executor orch) (route decision)
                 (ctx\<lparr>routerDecision := Some decision\<rparr>) clk),
          orch\<lparr>o_router := router'\<rparr>))"

definition processWithRoute ::
  "Orchestrator \<Rightarrow> RouteType \<Rightarrow> ExecutionContext \<Rightarrow> Clock \<Rightarrow> js_error + ExecutionResult" where
  "processWithRoute orch route' ctx clk = fst (execute (o_executor orch) route' ctx clk)"

section \<open>Example inputs\<close>

text \<open>Errors, responses and adapters used to run the definitions on concrete inputs.\<close>

definition server_error :: js_error where
  "server_error = \<lparr>status = Some 500, message = ''Internal Server Error''\<rparr>"

definition rate_limited :: js_error where
  "rate_limited = \<lparr>status = Some 429, message = ''Too Many Requests''\<rparr>"

definition unavailable :: js_error where
  "unavailable = \<lparr>status = Some 503, message = ''Service Unavailable''\<rparr>"

definition quota_error :: js_error where
  "quota_error = \<lparr>status = Some 400, message = ''You exceeded your current quota''\<rparr>"

definition hello :: anthropic_response where
  "hello = \<lparr>an_content = [text_block ''hello''], stop_reason = ''end_turn'',
             input_tokens = 9, output_tokens = 2\<rparr>"

definition pong :: openai_response where
  "pong = \<lparr>choices = [\<lparr>message_content = Some ''pong'', finish_reason = ''stop''\<rparr>],
            oa_usage = Some \<lparr>prompt_tokens = 12, completion_tokens = 3\<rparr>\<rparr>"

definition bonjour :: gemini_response where
  "bonjour = \<lparr>gm_text = ''bonjour'', finishReason = Some ''STOP'', usageMetadata = None\<rparr>"

definition failing_anthropic :: "anthropic_response adapter" where
  "failing_anthropic = new_AnthropicProvider (Some (\<lambda>k req. Inl server_error)) None"

definition throttled_anthropic :: "anthropic_response adapter" where
  "throttled_anthropic =
     new_AnthropicProvider (Some (\<lambda>k req. if k = 0 then Inl rate_limited else Inr hello)) None"

definition answering_openai :: "openai_response adapter" where
  "answering_openai = new_OpenAIProvider (Some (\<lambda>k req. Inr pong)) None"

definition overloaded_openai :: "openai_response adapter" where
  "overloaded_openai =
     new_OpenAIProvider (Some (\<lambda>k req. if k = 0 then Inl unavailable else Inl rate_limited)) None"

definition failing_gemini :: "gemini_response adapter" where
  "failing_gemini = new_GeminiProvider (Some (\<lambda>k req. Inl server_error)) None"

definition throttled_gemini :: "gemini_response adapter" where
  "throttled_gemini =
     new_GeminiProvider (Some (\<lambda>k req. if k = 0 then Inl rate_limited else Inr bonjour)) None"

definition quota_gemini :: "gemini_response adapter" where
  "quota_gemini =
     new_GeminiProvider (Some (\<lambda>k req. if k = 0 then Inl quota_error else Inr bonjour)) None"

definition ping :: "Message list" where
  "ping = [\<lparr>role = user, content = ''ping''\<rparr>]"

definition example_router :: IntelligentRouter where
  "example_router =
     \<lparr>r_client = None, r_modelId = ''claude-3-5-haiku-20241022'',
      r_config = merge_config None, r_stats = initial_stats\<rparr>"

definition what_is_typescript :: RouterInput where
  "what_is_typescript =
     \<lparr>query = ''What is TypeScript?'', mode = None, ri_conversationHistory = None,
      ri_context = None\<rparr>"

definition compare_query :: RouterInput where
  "compare_query =
     \<lparr>query = ''Compare Rust and Go for me, in all the usual respects'', mode = None,
      ri_conversationHistory = None, ri_context = None\<rparr>"

definition research_query :: RouterInput where
  "research_query =
     \<lparr>query = ''hi'', mode = Some research_mode, ri_conversationHistory = None,
      ri_context = None\<rparr>"

definition weekend_query :: RouterInput where
  "weekend_query =
     \<lparr>query = ''Please help me plan something nice for a long weekend trip'', mode = None,
      ri_conversationHistory = None, ri_context = None\<rparr>"

definition classifier_client :: "anthropic_response client" where
  \<open>classifier_client =
     (\<lambda>k req. Inr \<lparr>an_content = [text_block ''{"route":"creative","confidence":0.5}''],
                    stop_reason = ''end_turn'', input_tokens = 300, output_tokens = 12\<rparr>)\<close>


definition example_calls ::
  "(anthropic_response client option \<times> RouterInput \<times> int \<times> int) list" where
  "example_calls =
     [(None, what_is_typescript, 1000, 1004),
      (None, compare_query, 2000, 2010),
      (Some classifier_client, weekend_query, 3000, 3031)]"

definition example_clock :: Clock where
  "example_clock = \<lparr>t_start = 5000, t_mark = 5001, t_measure = 5801, t_total = 5802\<rparr>"

definition plain_context :: ExecutionContext where
  "plain_context =
     \<lparr>ec_query = ''ping'', ec_mode = None, routerDecision = None, ec_systemPrompt = None,
      conversationHistory = None, retrievedContext = None\<rparr>"

definition throttled_executor :: RouteExecutor where
  "throttled_executor =
     \<lparr>systemPrompts = DEFAULT_SYSTEM_PROMPTS,
      providerManager = [AnthropicProvider throttled_anthropic]\<rparr>"

definition fallback_executor :: RouteExecutor where
  "fallback_executor =
     \<lparr>systemPrompts = DEFAULT_SYSTEM_PROMPTS,
      providerManager = [AnthropicProvider failing_anthropic, OpenAIProvider answering_openai]\<rparr>"

definition constructor_openai :: "openai_response adapter" where
  "constructor_openai =
     new_OpenAIProvider (Some (\<lambda>k req. Inr pong))
       (Some \<lparr>cfg_primaryModel = Some ''constructor'', cfg_fallbackModel = None\<rparr>)"

definition constructor_executor :: RouteExecutor where
  "constructor_executor =
     \<lparr>systemPrompts = DEFAULT_SYSTEM_PROMPTS,
      providerManager = [OpenAIProvider constructor_openai]\<rparr>"

definition doubtful_client :: "anthropic_response client" where
  \<open>doubtful_client =
     (\<lambda>k req. Inr \<lparr>an_content = [text_block ''{"route":"standard","confidence":-1}''],
                    stop_reason = ''end_turn'', input_tokens = 300, output_tokens = 12\<rparr>)\<close>

definition doubtful_orchestrator :: Orchestrator where
  "doubtful_orchestrator =
     \<lparr>o_router = example_router\<lparr>r_client := Some doubtful_client\<rparr>,
      o_executor = fallback_executor\<rparr>"

definition weekend_context :: ExecutionContext where
  "weekend_context =
     \<lparr>ec_query = query weekend_query, ec_mode = None, routerDecision = None,
      ec_systemPrompt = None, conversationHistory = None, retrievedContext = None\<rparr>"

lemmas example_defs =
  server_error_def rate_limited_def unavailable_def quota_error_def hello_def pong_def bonjour_def
  failing_anthropic_def throttled_anthropic_def answering_openai_def overloaded_openai_def
  failing_gemini_def throttled_gemini_def quota_gemini_def constructor_openai_def ping_def
  new_AnthropicProvider_def new_OpenAIProvider_def new_GeminiProvider_def new_adapter_def model_or_def

lemmas provider_defs =
  anthropic_chat_def anthropic_chatWithModel_def anthropic_call_def anthropic_request_def
  openai_chat_def openai_chatWithModel_def openai_primary_def openai_request_def openai_usage_of_def
  gemini_chat_def gemini_chatWithModel_def gemini_call_def gemini_request_def gemini_usage_of_def
  maxTokens_or_def temperature_of_def opt_jsonMode_def
  AnthropicProvider_name_def OpenAIProvider_name_def GeminiProvider_name_def Error_def

lemmas registry_defs =
  getRouteModel_def getRouteConfig_def ROUTE_CONFIGS_def ROUTE_CONFIGS_entries_def
  MODELS_def MODELS_entries_def table_get_def Object_prototype_keys_def
  invalid_primary_model_def

lemmas executor_defs =
  execute_def buildMessages_def measure_generation_def getTotalMs_def
  estimateCostFromTokens_def estimateCost_def estimateTokens_def DEFAULT_SYSTEM_PROMPTS_def
  ProviderManager_chat_def

section \<open>Properties\<close>

subsection \<open>Provider manager\<close>

lemma chat_loop_success:
  assumes "\<forall>q \<in> set failed. isl (fst (provider_chat q ms sp opts))"
    and "fst (provider_chat p ms sp opts) = Inr result"
  shows "chat_loop (failed @ p # rest) ms sp opts lastError =
           (Inr result, map (tried_entry ms sp opts) (failed @ [p]))"
  using assms
proof (induction failed arbitrary: lastError)
  case Nil
  then show ?case
    by (cases "provider_chat p ms sp opts") (simp add: tried_entry_def)
next
  case (Cons q failed)
  then obtain e sent where q: "provider_chat q ms sp opts = (Inl e, sent)"
    by (cases "provider_chat q ms sp opts"; cases "fst (provider_chat q ms sp opts)") auto
  from Cons show ?case
    by (simp add: q tried_entry_def)
qed

lemma chat_loop_failure:
  assumes "\<forall>q \<in> set ps. isl (fst (provider_chat q ms sp opts))"
  shows "chat_loop ps ms sp opts lastError =
           ((case ps of [] \<Rightarrow> (case lastError of Some e \<Rightarrow> Inl e | None \<Rightarrow> Inl (Error ''All AI providers failed''))
             | _ \<Rightarrow> fst (provider_chat (last ps) ms sp opts)),
            map (tried_entry ms sp opts) ps)"
  using assms
proof (induction ps arbitrary: lastError)
  case Nil
  then show ?case by (simp split: option.splits)
next
  case (Cons q ps)
  then obtain e sent where q: "provider_chat q ms sp opts = (Inl e, sent)"
    by (cases "provider_chat q ms sp opts"; cases "fst (provider_chat q ms sp opts)") auto
  from Cons show ?case
    by (cases ps) (simp_all add: q tried_entry_def)
qed

lemma anthropic_call_fields:
  "anthropic_call cl k m ms sp opts = Inr r \<Longrightarrow> cr_provider r = AnthropicProvider_name \<and> cr_model r = m"
  by (auto simp: anthropic_call_def split: sum.splits list.splits content_block.splits)

lemma provider_chat_fields:
  assumes "fst (provider_chat p ms sp opts) = Inr r"
  shows "cr_provider r = provider_name p \<and> cr_model r \<in> provider_models p"
proof (cases p)
  case (AnthropicProvider a)
  with assms show ?thesis
    by (auto simp: anthropic_chat_def anthropic_chatWithModel_def Let_def
             dest: anthropic_call_fields split: option.splits sum.splits if_splits)
next
  case (OpenAIProvider a)
  with assms show ?thesis
    by (auto simp: openai_chat_def openai_chatWithModel_def openai_primary_def Let_def
             split: option.splits sum.splits if_splits list.splits)
next
  case (GeminiProvider a)
  with assms show ?thesis
    by (auto simp: gemini_chat_def gemini_chatWithModel_def gemini_call_def Let_def
             split: option.splits sum.splits if_splits prod.splits)
qed

text \<open>
  C1. \<^verbatim>\<open>ProviderManager.chat\<close> with no provider fails at once with the
  no-providers-available error. With providers, it tries them in their stored order:
  when the providers before \<open>p\<close> all fail and \<open>p\<close> succeeds, it returns the result of
  \<open>p\<close>, having tried exactly those providers and \<open>p\<close>, and the result names \<open>p\<close> and
  one of its two models; when every provider fails, it fails with the error of the last
  one, having tried them all.
\<close>

theorem ProviderManager_chat_first_success:
  "ProviderManager_chat [] ms sp opts =
     (Inl (Error ''No AI providers available. Please configure API keys.''), []) \<and>
   ((\<forall>q \<in> set failed. isl (fst (provider_chat q ms sp opts))) \<and>
    fst (provider_chat p ms sp opts) = Inr result \<longrightarrow>
      ProviderManager_chat (failed @ p # rest) ms sp opts =
        (Inr result, map (tried_entry ms sp opts) (failed @ [p])) \<and>
      cr_provider result = provider_name p \<and> cr_model result \<in> provider_models p) \<and>
   (ps \<noteq> [] \<and> (\<forall>q \<in> set ps. isl (fst (provider_chat q ms sp opts))) \<longrightarrow>
      ProviderManager_chat ps ms sp opts =
        (fst (provider_chat (last ps) ms sp opts), map (tried_entry ms sp opts) ps))"
proof (intro conjI impI)
  show "ProviderManager_chat [] ms sp opts =
     (Inl (Error ''No AI providers available. Please configure API keys.''), [])"
    by (simp add: ProviderManager_chat_def)
next
  assume h: "(\<forall>q \<in> set failed. isl (fst (provider_chat q ms sp opts))) \<and>
    fst (provider_chat p ms sp opts) = Inr result"
  then show "ProviderManager_chat (failed @ p # rest) ms sp opts =
        (Inr result, map (tried_entry ms sp opts) (failed @ [p]))"
    using chat_loop_success [of failed ms sp opts p result rest None]
    by (simp add: ProviderManager_chat_def)
  from h show "cr_provider result = provider_name p"
    using provider_chat_fields by blast
  from h show "cr_model result \<in> provider_models p"
    using provider_chat_fields by blast
next
  assume h: "ps \<noteq> [] \<and> (\<forall>q \<in> set ps. isl (fst (provider_chat q ms sp opts)))"
  then show "ProviderManager_chat ps ms sp opts =
        (fst (provider_chat (last ps) ms sp opts), map (tried_entry ms sp opts) ps)"
    using chat_loop_failure [of ps ms sp opts None]
    by (cases ps) (simp_all add: ProviderManager_chat_def)
qed

theorem ProviderManager_chat_first_success_witness:
  "ProviderManager_chat
     [AnthropicProvider failing_anthropic, OpenAIProvider answering_openai,
      GeminiProvider failing_gemini] ping ''Be brief.'' None =
     (Inr \<lparr>cr_content = ''pong'', cr_provider = ''OpenAI GPT'', cr_model = ''gpt-4o'',
           cr_usage = Some \<lparr>inputTokens = 12, outputTokens = 3\<rparr>\<rparr>,
      [(''Anthropic Claude'', [anthropic_request ''claude-sonnet-4-20250514'' ping ''Be brief.'' None]),
       (''OpenAI GPT'', [openai_request ''gpt-4o'' ping ''Be brief.'' None])]) \<and>
   fst (ProviderManager_chat
          [AnthropicProvider failing_anthropic, GeminiProvider failing_gemini]
          ping ''Be brief.'' None) = Inl server_error"
proof -
  have f: "\<forall>q \<in> set [AnthropicProvider failing_anthropic].
             isl (fst (provider_chat q ping ''Be brief.'' None))"
    by (simp add: example_defs provider_defs)
  have g: "fst (provider_chat (OpenAIProvider answering_openai) ping ''Be brief.'' None) =
             Inr \<lparr>cr_content = ''pong'', cr_provider = ''OpenAI GPT'', cr_model = ''gpt-4o'',
                  cr_usage = Some \<lparr>inputTokens = 12, outputTokens = 3\<rparr>\<rparr>"
    by (simp add: example_defs provider_defs)
  have h: "\<forall>q \<in> set [AnthropicProvider failing_anthropic, GeminiProvider failing_gemini].
             isl (fst (provider_chat q ping ''Be brief.'' None))"
    by (simp add: example_defs provider_defs)
  from ProviderManager_chat_first_success
         [of ping "''Be brief.''" None "[AnthropicProvider failing_anthropic]"
             "OpenAIProvider answering_openai" _ "[GeminiProvider failing_gemini]"
             "[AnthropicProvider failing_anthropic, GeminiProvider failing_gemini]"]
       f g h
  show ?thesis
    by (simp add: tried_entry_def example_defs provider_defs)
qed

subsection \<open>Provider adapters\<close>

text \<open>
  C2 (amended). In the Anthropic and OpenAI adapters, a primary call failing with status
  429 or 503 is followed by exactly one call, to the fallback model, whose outcome is the
  outcome of \<^verbatim>\<open>chat\<close> (a result then carries the fallback model id, an error is
  not retried); any other error is the outcome at once, with no second call. In the Gemini
  adapter the second call is made for status 429 and for any error whose message contains
  \<^verbatim>\<open>quota\<close>, whatever its status; an error with a status other than 429 and 503 and
  without \<^verbatim>\<open>quota\<close> in its message is the outcome at once. (The Gemini adapter
  sends nothing for an empty list of messages, so its primary call supposes one message
  at least.)
\<close>

theorem adapter_fallback_once:
  "(a_client a = Some cl \<and> anthropic_call cl 0 (a_primaryModel a) ms sp opts = Inl e \<longrightarrow>
      (if status e = Some 429 \<or> status e = Some 503
       then anthropic_chat a ms sp opts =
              (anthropic_call cl 1 (a_fallbackModel a) ms sp opts,
               [anthropic_request (a_primaryModel a) ms sp opts,
                anthropic_request (a_fallbackModel a) ms sp opts]) \<and>
            (\<forall>r. anthropic_call cl 1 (a_fallbackModel a) ms sp opts = Inr r \<longrightarrow>
                   cr_model r = a_fallbackModel a)
       else anthropic_chat a ms sp opts =
              (Inl e, [anthropic_request (a_primaryModel a) ms sp opts]))) \<and>
   (a_client b = Some ol \<and> openai_primary ol (a_primaryModel b) ms sp opts = Inl e' \<longrightarrow>
      (if status e' = Some 429 \<or> status e' = Some 503
       then openai_chat b ms sp opts =
              (fst (openai_chatWithModel ol 1 (a_fallbackModel b) ms sp opts),
               [openai_request (a_primaryModel b) ms sp opts,
                openai_request (a_fallbackModel b) ms sp opts]) \<and>
            (\<forall>r. fst (openai_chatWithModel ol 1 (a_fallbackModel b) ms sp opts) = Inr r \<longrightarrow>
                   cr_model r = a_fallbackModel b)
       else openai_chat b ms sp opts =
              (Inl e', [openai_request (a_primaryModel b) ms sp opts]))) \<and>
   (a_client g = Some gl \<and> ms \<noteq> [] \<and>
    fst (gemini_call gl 0 (a_primaryModel g) ms sp opts) = Inl e'' \<longrightarrow>
      (status e'' = Some 429 \<or> includes_str (message e'') ''quota'' \<longrightarrow>
         gemini_chat g ms sp opts =
           (fst (gemini_chatWithModel gl 1 (a_fallbackModel g) ms sp opts),
            [gemini_request (a_primaryModel g) ms sp opts,
             gemini_request (a_fallbackModel g) ms sp opts]) \<and>
         (\<forall>r. fst (gemini_chatWithModel gl 1 (a_fallbackModel g) ms sp opts) = Inr r \<longrightarrow>
                cr_model r = a_fallbackModel g)) \<and>
      (status e'' \<noteq> Some 429 \<and> status e'' \<noteq> Some 503 \<and>
       \<not> includes_str (message e'') ''quota'' \<longrightarrow>
         gemini_chat g ms sp opts = (Inl e'', [gemini_request (a_primaryModel g) ms sp opts])))"
proof (intro conjI impI)
  assume "a_client a = Some cl \<and> anthropic_call cl 0 (a_primaryModel a) ms sp opts = Inl e"
  then show "if status e = Some 429 \<or> status e = Some 503
       then anthropic_chat a ms sp opts =
              (anthropic_call cl 1 (a_fallbackModel a) ms sp opts,
               [anthropic_request (a_primaryModel a) ms sp opts,
                anthropic_request (a_fallbackModel a) ms sp opts]) \<and>
            (\<forall>r. anthropic_call cl 1 (a_fallbackModel a) ms sp opts = Inr r \<longrightarrow>
                   cr_model r = a_fallbackModel a)
       else anthropic_chat a ms sp opts =
              (Inl e, [anthropic_request (a_primaryModel a) ms sp opts])"
    by (auto simp: anthropic_chat_def anthropic_chatWithModel_def dest: anthropic_call_fields)
next
  assume "a_client b = Some ol \<and> openai_primary ol (a_primaryModel b) ms sp opts = Inl e'"
  then show "if status e' = Some 429 \<or> status e' = Some 503
       then openai_chat b ms sp opts =
              (fst (openai_chatWithModel ol 1 (a_fallbackModel b) ms sp opts),
               [openai_request (a_primaryModel b) ms sp opts,
                openai_request (a_fallbackModel b) ms sp opts]) \<and>
            (\<forall>r. fst (openai_chatWithModel ol 1 (a_fallbackModel b) ms sp opts) = Inr r \<longrightarrow>
                   cr_model r = a_fallbackModel b)
       else openai_chat b ms sp opts =
              (Inl e', [openai_request (a_primaryModel b) ms sp opts])"
    by (auto simp: openai_chat_def openai_chatWithModel_def split: sum.splits list.splits)
next
  assume h: "a_client g = Some gl \<and> ms \<noteq> [] \<and>
    fst (gemini_call gl 0 (a_primaryModel g) ms sp opts) = Inl e''"
  then have first: "gemini_call gl 0 (a_primaryModel g) ms sp opts =
                      (Inl e'', [gemini_request (a_primaryModel g) ms sp opts])"
    by (auto simp: gemini_call_def)
  {
    assume "status e'' = Some 429 \<or> includes_str (message e'') ''quota''"
    with h first show "gemini_chat g ms sp opts =
           (fst (gemini_chatWithModel gl 1 (a_fallbackModel g) ms sp opts),
            [gemini_request (a_primaryModel g) ms sp opts,
             gemini_request (a_fallbackModel g) ms sp opts])"
      by (auto simp: gemini_chat_def gemini_chatWithModel_def gemini_call_def)
    show "\<forall>r. fst (gemini_chatWithModel gl 1 (a_fallbackModel g) ms sp opts) = Inr r \<longrightarrow>
                cr_model r = a_fallbackModel g"
      by (auto simp: gemini_chatWithModel_def gemini_call_def split: sum.splits if_splits)
  }
  {
    assume "status e'' \<noteq> Some 429 \<and> status e'' \<noteq> Some 503 \<and>
       \<not> includes_str (message e'') ''quota''"
    with h first show "gemini_chat g ms sp opts =
        (Inl e'', [gemini_request (a_primaryModel g) ms sp opts])"
      by (auto simp: gemini_chat_def)
  }
qed

theorem adapter_fallback_once_witness:
  "anthropic_chat throttled_anthropic ping ''Be brief.'' None =
     (Inr \<lparr>cr_content = ''hello'', cr_provider = ''Anthropic Claude'',
           cr_model = ''claude-3-5-haiku-20241022'',
           cr_usage = Some \<lparr>inputTokens = 9, outputTokens = 2\<rparr>\<rparr>,
      [anthropic_request ''claude-sonnet-4-20250514'' ping ''Be brief.'' None,
       anthropic_request ''claude-3-5-haiku-20241022'' ping ''Be brief.'' None]) \<and>
   openai_chat overloaded_openai ping ''Be brief.'' None =
     (Inl rate_limited,
      [openai_request ''gpt-4o'' ping ''Be brief.'' None,
       openai_request ''gpt-4o-mini'' ping ''Be brief.'' None]) \<and>
   gemini_chat failing_gemini ping ''Be brief.'' None =
     (Inl server_error, [gemini_request ''gemini-1.5-pro'' ping ''Be brief.'' None]) \<and>
   gemini_chat throttled_gemini ping ''Be brief.'' None =
     (Inr \<lparr>cr_content = ''bonjour'', cr_provider = ''Google Gemini'',
           cr_model = ''gemini-1.5-flash'', cr_usage = None\<rparr>,
      [gemini_request ''gemini-1.5-pro'' ping ''Be brief.'' None,
       gemini_request ''gemini-1.5-flash'' ping ''Be brief.'' None])"
proof -
  let ?cl = "\<lambda>k req. if k = (0::nat) then Inl rate_limited else Inr hello"
  let ?ol = "\<lambda>k req. if k = (0::nat) then Inl unavailable else Inl rate_limited :: js_error + openai_response"
  let ?gl = "\<lambda>(k::nat) (req::request). Inl server_error :: js_error + gemini_response"
  let ?tl = "\<lambda>k req. if k = (0::nat) then Inl rate_limited else Inr bonjour"
  have a: "a_client throttled_anthropic = Some ?cl \<and>
           anthropic_call ?cl 0 (a_primaryModel throttled_anthropic) ping ''Be brief.'' None
             = Inl rate_limited"
    by (simp add: example_defs provider_defs)
  have b: "a_client overloaded_openai = Some ?ol \<and>
           openai_primary ?ol (a_primaryModel overloaded_openai) ping ''Be brief.'' None
             = Inl unavailable"
    by (simp add: example_defs provider_defs)
  have g: "a_client failing_gemini = Some ?gl \<and> ping \<noteq> [] \<and>
           fst (gemini_call ?gl 0 (a_primaryModel failing_gemini) ping ''Be brief.'' None)
             = Inl server_error"
    by (simp add: example_defs provider_defs)
  have n: "status server_error \<noteq> Some 429 \<and> status server_error \<noteq> Some 503 \<and>
           \<not> includes_str (message server_error) ''quota''"
    by (simp add: server_error_def startsWith_def)
  have t: "a_client throttled_gemini = Some ?tl \<and> ping \<noteq> [] \<and>
           fst (gemini_call ?tl 0 (a_primaryModel throttled_gemini) ping ''Be brief.'' None)
             = Inl rate_limited"
    by (simp add: example_defs provider_defs)
  have r: "status rate_limited = Some 429"
    by (simp add: rate_limited_def)
  from adapter_fallback_once
         [of throttled_anthropic ?cl ping "''Be brief.''" None rate_limited
             overloaded_openai ?ol unavailable failing_gemini ?gl server_error]
       a b g n
  have 1: "anthropic_chat throttled_anthropic ping ''Be brief.'' None =
             (Inr \<lparr>cr_content = ''hello'', cr_provider = ''Anthropic Claude'',
                   cr_model = ''claude-3-5-haiku-20241022'',
                   cr_usage = Some \<lparr>inputTokens = 9, outputTokens = 2\<rparr>\<rparr>,
              [anthropic_request ''claude-sonnet-4-20250514'' ping ''Be brief.'' None,
               anthropic_request ''claude-3-5-haiku-20241022'' ping ''Be brief.'' None]) \<and>
           openai_chat overloaded_openai ping ''Be brief.'' None =
             (Inl rate_limited,
              [openai_request ''gpt-4o'' ping ''Be brief.'' None,
               openai_request ''gpt-4o-mini'' ping ''Be brief.'' None]) \<and>
           gemini_chat failing_gemini ping ''Be brief.'' None =
             (Inl server_error, [gemini_request ''gemini-1.5-pro'' ping ''Be brief.'' None])"
    by (simp add: example_defs provider_defs)
  from adapter_fallback_once
         [of _ _ ping "''Be brief.''" None _ _ _ _ throttled_gemini ?tl rate_limited] t r
  have 2: "gemini_chat throttled_gemini ping ''Be brief.'' None =
             (Inr \<lparr>cr_content = ''bonjour'', cr_provider = ''Google Gemini'',
                   cr_model = ''gemini-1.5-flash'', cr_usage = None\<rparr>,
              [gemini_request ''gemini-1.5-pro'' ping ''Be brief.'' None,
               gemini_request ''gemini-1.5-flash'' ping ''Be brief.'' None])"
    by (simp add: example_defs provider_defs)
  from 1 2 show ?thesis by blast
qed

text \<open>
  C2 as stated, for every adapter, fails on the Gemini adapter: an error with status 400
  whose message mentions the quota is followed by a call to the fallback model.
\<close>

theorem gemini_quota_counterexample:
  "status quota_error = Some 400 \<and>
   fst (gemini_call (the (a_client quota_gemini)) 0 (a_primaryModel quota_gemini)
          ping ''Be brief.'' None) = Inl quota_error \<and>
   gemini_chat quota_gemini ping ''Be brief.'' None =
     (Inr \<lparr>cr_content = ''bonjour'', cr_provider = ''Google Gemini'',
           cr_model = ''gemini-1.5-flash'', cr_usage = None\<rparr>,
      [gemini_request ''gemini-1.5-pro'' ping ''Be brief.'' None,
       gemini_request ''gemini-1.5-flash'' ping ''Be brief.'' None]) \<and>
   gemini_chat quota_gemini ping ''Be brief.'' None \<noteq>
     (Inl quota_error, [gemini_request ''gemini-1.5-pro'' ping ''Be brief.'' None])"
  by (simp add: example_defs provider_defs startsWith_def)

subsection \<open>Router\<close>

lemma clamp_range: "x \<noteq> NaN \<Longrightarrow> in_unit_interval (Math_max (Num 0) (Math_min (Num 1) x))"
  by (cases x) auto

lemma clamp_NaN: "Math_max (Num 0) (Math_min (Num 1) x) = NaN \<longleftrightarrow> x = NaN"
  by (cases x) auto


lemma parse_route_valid: "p_route (parseRouterResponse P text) \<in> set validRoutes"
  by (auto simp: parseRouterResponse_def parse_failed_def validRoutes_def
           split: option.splits json.splits)

lemma parse_confidence_range:
  "p_confidence (parseRouterResponse P text) \<noteq> NaN \<Longrightarrow>
     in_unit_interval (p_confidence (parseRouterResponse P text))"
  by (auto simp: parseRouterResponse_def parse_failed_def clamp_NaN intro!: clamp_range
           split: option.splits if_splits)

lemma heuristic_valid:
  "route (heuristicDecision cfg q m t0 t1) \<in> set validRoutes \<and>
   in_unit_interval (confidence (heuristicDecision cfg q m t0 t1)) \<and>
   \<not> bypassed (heuristicDecision cfg q m t0 t1)"
  by (simp add: heuristicDecision_def validRoutes_def Let_def)


lemma llmRoute_valid:
  "llmRoute P r cl input t0 t1 = Inr d \<Longrightarrow>
     route d \<in> set validRoutes \<and> (confidence d \<noteq> NaN \<longrightarrow> in_unit_interval (confidence d)) \<and>
     \<not> bypassed d"
  by (auto simp: llmRoute_def Let_def parse_route_valid dest: parse_confidence_range
           split: sum.splits list.splits content_block.splits)

lemma route_query_cases:
  "(\<exists>b. shouldBypass (r_config r) (query input) (case mode input of None \<Rightarrow> standard_mode | Some m \<Rightarrow> m) = Some b \<and>
        route_query P r input t0 t1 =
          (\<lparr>route = b, confidence = Num (19 / 20),
            reasoning = Some (JString ''Query matched simple pattern - router bypassed''),
            complexitySignals = JArray [], bypassed = True, latencyMs = Some (t1 - t0)\<rparr>,
           r\<lparr>r_stats := updateStats \<lparr>route = b, confidence = Num (19 / 20),
            reasoning = Some (JString ''Query matched simple pattern - router bypassed''),
            complexitySignals = JArray [], bypassed = True, latencyMs = Some (t1 - t0)\<rparr> (r_stats r)\<rparr>, [])) \<or>
   (shouldBypass (r_config r) (query input) (case mode input of None \<Rightarrow> standard_mode | Some m \<Rightarrow> m) = None \<and>
      (\<exists>sent. route_query P r input t0 t1 =
        (heuristicDecision (r_config r) (query input) (case mode input of None \<Rightarrow> standard_mode | Some m \<Rightarrow> m) t0 t1,
         r\<lparr>r_stats := updateStats (heuristicDecision (r_config r) (query input) (case mode input of None \<Rightarrow> standard_mode | Some m \<Rightarrow> m) t0 t1) (r_stats r)\<rparr>, sent))) \<or>
   (shouldBypass (r_config r) (query input) (case mode input of None \<Rightarrow> standard_mode | Some m \<Rightarrow> m) = None \<and>
      (\<exists>cl d. r_client r = Some cl \<and> llmRoute P r cl input t0 t1 = Inr d \<and>
         route_query P r input t0 t1 = (d, r\<lparr>r_stats := updateStats d (r_stats r)\<rparr>, [llm_request r input])))"
  by (auto simp: route_query_def heuristicRoute_def Let_def split: option.splits sum.splits)





text \<open>
  C4. A query routed outside research mode, of at most five words and matching none of
  the configured complexity signals, is bypassed: the decision is route \<^verbatim>\<open>fast\<close>,
  confidence \<open>0.95\<close>, \<^verbatim>\<open>bypassed\<close> true, and no request is sent.
\<close>

theorem bypass_short_query:
  assumes "mode input \<noteq> Some research_mode"
    and "length (splitWS (trim (query input))) \<le> 5"
    and "\<not> hasComplexSignals (r_config r) (query input)"
  shows "\<exists>d r'. route_query P r input t0 t1 = (d, r', []) \<and>
           route d = ''fast'' \<and> confidence d = Num (19 / 20) \<and> bypassed d"
proof -
  from assms(1) have m: "(case mode input of None \<Rightarrow> standard_mode | Some m \<Rightarrow> m) = standard_mode"
    by (cases "mode input") (auto intro: Mode.exhaust)
  have "shouldBypass (r_config r) (query input) standard_mode = Some ''fast''"
    using assms(2,3) by (simp add: shouldBypass_def Let_def)
  then show ?thesis
    by (simp add: route_query_def Let_def m)
qed

theorem bypass_short_query_witness:
  "\<exists>d r'. route_query json_reader example_router what_is_typescript 1000 1004 = (d, r', []) \<and>
           route d = ''fast'' \<and> confidence d = Num (19 / 20) \<and> bypassed d"
proof -
  have a: "mode what_is_typescript \<noteq> Some research_mode"
    by (simp add: what_is_typescript_def)
  have b: "length (splitWS (trim (query what_is_typescript))) \<le> 5"
    by code_simp
  have c: "\<not> hasComplexSignals (r_config example_router) (query what_is_typescript)"
    by code_simp
  from bypass_short_query [OF a b c] show ?thesis .
qed

text \<open>
  C5. In research mode the bypass check answers no route, and the decision, whichever
  tier makes it, has \<^verbatim>\<open>bypassed\<close> false, whatever the query.
\<close>

theorem research_mode_never_bypassed:
  assumes "mode input = Some research_mode"
  shows "shouldBypass (r_config r) (query input) research_mode = None \<and>
         \<not> bypassed (fst (route_query P r input t0 t1))"
proof -
  have "shouldBypass (r_config r) (query input) research_mode = None"
    by (simp add: shouldBypass_def)
  with assms show ?thesis
    using route_query_cases [of r input P t0 t1] heuristic_valid llmRoute_valid
    by fastforce
qed

theorem research_mode_never_bypassed_witness:
  "\<not> bypassed (fst (route_query json_reader example_router research_query 1000 1004)) \<and>
   length (splitWS (trim (query research_query))) \<le> 5"
proof -
  have a: "mode research_query = Some research_mode"
    by (simp add: research_query_def)
  have b: "length (splitWS (trim (query research_query))) \<le> 5"
    by code_simp
  from research_mode_never_bypassed [OF a] b show ?thesis by blast
qed

lemma route_query_updates_once:
  "r_stats (fst (snd (route_query P r input t0 t1))) =
     updateStats (fst (route_query P r input t0 t1)) (r_stats r)"
  using route_query_cases [of r input P t0 t1] by auto

lemma route_all_fold:
  "length (fst (route_all P r calls)) = length calls \<and>
   r_stats (snd (route_all P r calls)) =
     foldl (\<lambda>s d. updateStats d s) (r_stats r) (fst (route_all P r calls))"
proof (induction calls arbitrary: r)
  case Nil
  show ?case by simp
next
  case (Cons c calls)
  obtain cl input t0 t1 where c: "c = (cl, input, t0, t1)"
    by (cases c) auto
  obtain d r' sent where q: "route_query P (r\<lparr>r_client := cl\<rparr>) input t0 t1 = (d, r', sent)"
    by (cases "route_query P (r\<lparr>r_client := cl\<rparr>) input t0 t1") auto
  have s: "r_stats r' = updateStats d (r_stats r)"
    using route_query_updates_once [of P "r\<lparr>r_client := cl\<rparr>" input t0 t1] q by simp
  from Cons [of r'] show ?case
    by (auto simp: c q s split: prod.splits)
qed

lemma jsum_snoc: "jsum (xs @ [x]) = jadd (jsum xs) x"
  by (simp add: jsum_def)

lemma avgConfidence_step:
  assumes "a = (if n = 0 then Num 0 else jdiv s n)"
    and "s' = (if n = 0 then Num 0 else s)"
  shows "jdiv (jadd (jmul a (Num (of_nat (n + 1) - 1))) x) (n + 1) = jdiv (jadd s' x) (n + 1)"
proof (cases "n = 0")
  case True
  with assms show ?thesis by simp
next
  case False
  with assms show ?thesis by (cases s) (simp_all add: inf_times_def)
qed

lemma fold_updateStats:
  assumes "totalRouted s = length pre"
    and "avgLatencyMs s * of_nat (length pre) = sum_list (map recorded_latency pre)"
    and "avgConfidence s = (if pre = [] then Num 0 else jdiv (jsum (map confidence pre)) (length pre))"
    and "pre = [] \<longrightarrow> avgLatencyMs s = 0"
  shows "totalRouted (foldl (\<lambda>s d. updateStats d s) s ds) = length (pre @ ds) \<and>
         avgLatencyMs (foldl (\<lambda>s d. updateStats d s) s ds) * of_nat (length (pre @ ds)) =
           sum_list (map recorded_latency (pre @ ds)) \<and>
         avgConfidence (foldl (\<lambda>s d. updateStats d s) s ds) =
           (if pre @ ds = [] then Num 0
            else jdiv (jsum (map confidence (pre @ ds))) (length (pre @ ds)))"
  using assms
proof (induction ds arbitrary: s pre)
  case Nil
  then show ?case by simp
next
  case (Cons d ds)
  let ?s = "updateStats d s"
  have 1: "totalRouted ?s = length (pre @ [d])"
    using Cons.prems(1) by (simp add: updateStats_def Let_def)
  have "avgLatencyMs ?s =
          (avgLatencyMs s * of_nat (length pre) + recorded_latency d) / of_nat (length pre + 1)"
    using Cons.prems(1) by (simp add: updateStats_def Let_def recorded_latency_def)
  then have 2: "avgLatencyMs ?s * of_nat (length (pre @ [d])) =
                  sum_list (map recorded_latency (pre @ [d]))"
    using Cons.prems(2) by simp
  have "jsum (map confidence pre) = Num 0" if "pre = []"
    using that by (simp add: jsum_def)
  then have 3: "avgConfidence ?s =
         (if pre @ [d] = [] then Num 0
          else jdiv (jsum (map confidence (pre @ [d]))) (length (pre @ [d])))"
    using Cons.prems(1,3)
      avgConfidence_step [of "avgConfidence s" "length pre" "jsum (map confidence pre)"
                             "jsum (map confidence pre)" "confidence d"]
    by (auto simp: updateStats_def Let_def jsum_snoc)
  have 4: "pre @ [d] = [] \<longrightarrow> avgLatencyMs ?s = 0"
    by simp
  from Cons.IH [OF 1 2 3 4] show ?case by simp
qed

text \<open>
  C6. Every call of \<^verbatim>\<open>route\<close>, whichever tier decides, applies \<^verbatim>\<open>updateStats\<close>
  once to its decision, and that adds one to \<^verbatim>\<open>totalRouted\<close>. After a run of
  \<open>N > 0\<close> calls on a fresh router, \<^verbatim>\<open>totalRouted\<close> is \<open>N\<close>, \<^verbatim>\<open>avgLatencyMs\<close> is the
  mean of the \<open>N\<close> recorded latencies and \<^verbatim>\<open>avgConfidence\<close> the mean of the \<open>N\<close>
  confidences, exactly.
\<close>

theorem stats_running_mean:
  assumes "r_stats r0 = initial_stats" and "calls \<noteq> []"
  shows "r_stats (fst (snd (route_query P r input t0 t1))) =
           updateStats (fst (route_query P r input t0 t1)) (r_stats r) \<and>
         totalRouted (updateStats d s) = totalRouted s + 1 \<and>
         totalRouted (r_stats (snd (route_all P r0 calls))) = length calls \<and>
         length (fst (route_all P r0 calls)) = length calls \<and>
         avgLatencyMs (r_stats (snd (route_all P r0 calls))) =
           sum_list (map recorded_latency (fst (route_all P r0 calls))) / of_nat (length calls) \<and>
         avgConfidence (r_stats (snd (route_all P r0 calls))) =
           jdiv (jsum (map confidence (fst (route_all P r0 calls)))) (length calls) \<and>
         (map confidence (fst (route_all P r0 calls)) = map Num cs \<longrightarrow>
            avgConfidence (r_stats (snd (route_all P r0 calls))) =
              Num (sum_list cs / of_nat (length calls)))"
proof -
  let ?ds = "fst (route_all P r0 calls)"
  let ?s = "r_stats (snd (route_all P r0 calls))"
  have len: "length ?ds = length calls"
    and fold: "?s = foldl (\<lambda>s d. updateStats d s) initial_stats ?ds"
    using route_all_fold [of P r0 calls] assms(1) by simp_all
  have inv: "totalRouted ?s = length ?ds \<and>
             avgLatencyMs ?s * of_nat (length ?ds) = sum_list (map recorded_latency ?ds) \<and>
             avgConfidence ?s =
               (if ?ds = [] then Num 0 else jdiv (jsum (map confidence ?ds)) (length ?ds))"
    using fold_updateStats [of initial_stats "[]" ?ds] fold
    by (simp add: initial_stats_def)
  from assms(2) len have ne: "?ds \<noteq> []" and pos: "0 < length calls"
    by auto
  have lat: "avgLatencyMs ?s = sum_list (map recorded_latency ?ds) / of_nat (length calls)"
    using inv pos len by (simp add: field_simps)
  have conf: "avgConfidence ?s = jdiv (jsum (map confidence ?ds)) (length calls)"
    using inv ne len by simp
  have jsum_Num: "foldl jadd (Num a) (map Num xs) = Num (a + sum_list xs)" for a xs
    by (induction xs arbitrary: a) (simp_all add: add.assoc)
  have num: "avgConfidence ?s = Num (sum_list cs / of_nat (length calls))"
    if "map confidence ?ds = map Num cs"
    using conf that jsum_Num [of 0 cs] assms(2) by (simp add: jsum_def)
  show ?thesis
    using route_query_updates_once [of P r input t0 t1] inv len lat conf num
    by (simp add: updateStats_def Let_def)
qed

theorem stats_running_mean_witness:
  "map route (fst (route_all json_reader example_router example_calls)) = [''fast'', ''deep'', ''creative''] \<and>
   totalRouted (r_stats (snd (route_all json_reader example_router example_calls))) = 3 \<and>
   avgLatencyMs (r_stats (snd (route_all json_reader example_router example_calls))) = 15 \<and>
   avgConfidence (r_stats (snd (route_all json_reader example_router example_calls))) = Num (3 / 4)"
proof -
  have a: "r_stats example_router = initial_stats"
    by (simp add: example_router_def)
  have b: "example_calls \<noteq> []"
    by (simp add: example_calls_def)
  have e: "map (\<lambda>d. (route d, confidence d, recorded_latency d))
               (fst (route_all json_reader example_router example_calls)) =
             [(''fast'', Num (19 / 20), 4), (''deep'', Num (4 / 5), 10),
              (''creative'', Num (1 / 2), 31)]"
    by code_simp
  have r: "map route (fst (route_all json_reader example_router example_calls)) =
             [''fast'', ''deep'', ''creative'']"
    using arg_cong [OF e, of "map fst"] by (simp add: comp_def)
  have c: "map confidence (fst (route_all json_reader example_router example_calls)) =
             map Num [19 / 20, 4 / 5, 1 / 2]"
    using arg_cong [OF e, of "map (fst \<circ> snd)"] by (simp add: comp_def)
  have l: "map recorded_latency (fst (route_all json_reader example_router example_calls)) = [4, 10, 31]"
    using arg_cong [OF e, of "map (snd \<circ> snd)"] by (simp add: comp_def)
  have n: "length example_calls = 3"
    by (simp add: example_calls_def)
  from stats_running_mean [OF a b, where P = json_reader and cs = "[19 / 20, 4 / 5, 1 / 2]"] r c l n
  show ?thesis
    by (simp add: jsum_def)
qed

subsection \<open>Route executor\<close>

lemma valid_route_model:
  "route' \<in> set validRoutes \<Longrightarrow>
     (\<exists>m. getRouteModel route' = Inr (Own m)) \<and> (\<exists>c. getRouteConfig route' = Own c)"
  by (auto simp: validRoutes_def registry_defs)

lemma execute_cases:
  "(\<exists>e. getRouteModel route' = Inl e \<and> execute ex route' ctx clk = (Inl e, [])) \<or>
   (\<exists>e. getRouteConfig route' = Absent \<and> execute ex route' ctx clk = (Inl e, [])) \<or>
   (\<exists>e tried.
      ProviderManager_chat (providerManager ex) (buildMessages ctx)
        (systemPrompt_for ex route' ctx) (chatOptions_for route') = (Inl e, tried) \<and>
      execute ex route' ctx clk = (Inl e, tried)) \<or>
   (\<exists>result tried res.
      ProviderManager_chat (providerManager ex) (buildMessages ctx)
        (systemPrompt_for ex route' ctx) (chatOptions_for route') = (Inr result, tried) \<and>
      execute ex route' ctx clk = (Inr res, tried) \<and>
      answer res = cr_content result \<and> er_model res = cr_model result \<and>
      er_provider res = cr_provider result \<and>
      estimated (costs res) =
        estimateCostFromTokens (cr_model result) (c_inputTokens (costs res)) (c_outputTokens (costs res)) \<and>
      er_confidence res =
        (case routerDecision ctx of
           None \<Rightarrow> Num (4 / 5)
         | Some d \<Rightarrow> if truthy_num (confidence d) then confidence d else Num (4 / 5)) \<and>
      routingMs (timing res) = (case routerDecision ctx of None \<Rightarrow> None | Some d \<Rightarrow> latencyMs d) \<and>
      \<not> fallbackUsed (metadata res) \<and> fallbackReason (metadata res) = None)"
  unfolding execute_def Let_def systemPrompt_for_def chatOptions_for_def
  by (auto split: sum.splits option.splits prod.splits property.splits)

text \<open>
  What \<^verbatim>\<open>estimateCostFromTokens\<close> returns, by what the registry holds under the
  model identifier: the registry price for a registered key, the default price pair when
  the lookup throws, and \<open>NaN\<close> for a name the table inherits.
\<close>

lemma estimateCostFromTokens_cases:
  "estimateCostFromTokens model i j =
     (case table_get MODELS model of
        Own m \<Rightarrow> Num ((of_nat i / 1000000) * inputCost m + (of_nat j / 1000000) * outputCost m)
      | Inherited \<Rightarrow> NaN
      | Absent \<Rightarrow> Num (default_cost i j))"
  by (simp add: estimateCostFromTokens_def estimateCost_def default_cost_def Let_def
           split: property.splits)

text \<open>
  On a valid route \<^verbatim>\<open>execute\<close> fails exactly when the provider manager fails, with
  its error, and otherwise returns a result whose cost is estimated from the model
  identifier the generation result carries: no error of the cost lookup reaches the caller.
\<close>

lemma execute_on_valid_route:
  assumes "route' \<in> set validRoutes"
  shows "case fst (ProviderManager_chat (providerManager ex) (buildMessages ctx)
                     (systemPrompt_for ex route' ctx) (chatOptions_for route')) of
           Inl e \<Rightarrow> fst (execute ex route' ctx clk) = Inl e
         | Inr result \<Rightarrow>
             (\<exists>res. fst (execute ex route' ctx clk) = Inr res \<and>
                er_model res = cr_model result \<and>
                estimated (costs res) =
                  estimateCostFromTokens (cr_model result) (c_inputTokens (costs res))
                    (c_outputTokens (costs res)))"
proof (cases "fst (ProviderManager_chat (providerManager ex) (buildMessages ctx)
                     (systemPrompt_for ex route' ctx) (chatOptions_for route'))")
  case (Inl e)
  then show ?thesis
    using execute_cases [of route' ex ctx clk] valid_route_model [OF assms] by fastforce
next
  case (Inr result)
  then show ?thesis
    using execute_cases [of route' ex ctx clk] valid_route_model [OF assms] by fastforce
qed

text \<open>
  C8 fails on the code. For a registered key the registry price applies, and for an
  unknown identifier such as \<^verbatim>\<open>claude-3-5-haiku-20241022\<close> the lookup throws and the
  default price pair applies, as the claim says. But a model identifier that is a name
  every object inherits, such as \<^verbatim>\<open>constructor\<close>, is no registered key and yet the
  lookup finds something, does not throw, and the estimate is \<open>NaN\<close>: neither the
  registry price nor the default. An adapter configured with that model name brings it
  to \<^verbatim>\<open>execute\<close>.
\<close>

theorem inherited_model_name_costs_NaN:
  "MODELS ''constructor'' = None \<and>
   estimateCost ''constructor'' 12 3 = Inr NaN \<and>
   estimateCostFromTokens ''constructor'' 12 3 = NaN \<and>
   estimateCostFromTokens ''claude-3-5-haiku-20241022'' 12 3 = Num (81 / 1000000) \<and>
   estimateCostFromTokens ''gpt-4o'' 12 3 = Num (3 / 50000) \<and>
   map_sum message er_model
     (fst (execute constructor_executor ''standard'' plain_context example_clock)) =
     Inr ''constructor'' \<and>
   map_sum message (estimated \<circ> costs)
     (fst (execute constructor_executor ''standard'' plain_context example_clock)) = Inr NaN"
proof -
  have t: "table_get MODELS ''constructor'' = Inherited"
          "table_get MODELS ''claude-3-5-haiku-20241022'' = Absent"
          "\<exists>m. table_get MODELS ''gpt-4o'' = Own m \<and> inputCost m = 5 / 2 \<and> outputCost m = 10"
    by (simp_all add: registry_defs)
  have c: "estimateCostFromTokens ''constructor'' 12 3 = NaN"
          "estimateCostFromTokens ''claude-3-5-haiku-20241022'' 12 3 = Num (81 / 1000000)"
          "estimateCostFromTokens ''gpt-4o'' 12 3 = Num (3 / 50000)"
    using t by (auto simp: estimateCostFromTokens_cases default_cost_def)
  have e: "estimateCost ''constructor'' 12 3 = Inr NaN"
    using t by (simp add: estimateCost_def)
  have m: "MODELS ''constructor'' = None"
    by (simp add: MODELS_def MODELS_entries_def)
  have x: "map_sum message er_model
             (fst (execute constructor_executor ''standard'' plain_context example_clock)) =
             Inr ''constructor'' \<and>
           map_sum message (estimated \<circ> costs)
             (fst (execute constructor_executor ''standard'' plain_context example_clock)) = Inr NaN"
    by (simp add: executor_defs registry_defs constructor_executor_def plain_context_def
          example_clock_def example_defs provider_defs Let_def)
  from m e c x show ?thesis by blast
qed

text \<open>
  C9 fails on the code: a supplied decision whose confidence is \<open>0\<close> does not pass
  its confidence on; the result carries the default \<open>0.8\<close>. The classifier answer
  \<^verbatim>\<open>{"route":"standard","confidence":-1}\<close> leads there through \<^verbatim>\<open>process\<close>.
\<close>

theorem zero_confidence_replaced:
  "confidence (fst (route_query json_reader (o_router doubtful_orchestrator)
                  \<lparr>query = ec_query weekend_context, mode = ec_mode weekend_context,
                   ri_conversationHistory = conversationHistory weekend_context,
                   ri_context = None\<rparr> 3000 3031)) = Num 0 \<and>
   map_sum message er_confidence
     (fst (process json_reader doubtful_orchestrator weekend_context 3000 3031 example_clock)) =
     Inr (Num (4 / 5)) \<and>
   map_sum message er_confidence
     (fst (execute fallback_executor ''standard''
             (plain_context\<lparr>routerDecision :=
                Some \<lparr>route = ''standard'', confidence = Num 0, reasoning = None,
                      complexitySignals = JArray [], bypassed = False,
                      latencyMs = Some 31\<rparr>\<rparr>) example_clock)) = Inr (Num (4 / 5))"
proof -
  let ?input = "\<lparr>query = ec_query weekend_context, mode = ec_mode weekend_context,
                   ri_conversationHistory = conversationHistory weekend_context,
                   ri_context = None\<rparr>"
  let ?d = "\<lparr>route = ''standard'', confidence = Num 0, reasoning = None,
             complexitySignals = JArray [], bypassed = False, latencyMs = Some 31\<rparr>"
  have d: "fst (route_query json_reader (o_router doubtful_orchestrator) ?input 3000 3031) = ?d"
    by code_simp
  have p: "fst (process json_reader doubtful_orchestrator weekend_context 3000 3031 example_clock) =
           fst (execute fallback_executor ''standard''
                  (weekend_context\<lparr>routerDecision := Some ?d\<rparr>) example_clock)"
    using d by (simp add: process_def split_beta doubtful_orchestrator_def)
  have e: "map_sum message er_confidence
             (fst (execute fallback_executor ''standard''
                     (ctx\<lparr>routerDecision := Some ?d\<rparr>) example_clock)) = Inr (Num (4 / 5))"
    for ctx
    by (simp add: executor_defs registry_defs fallback_executor_def
          example_clock_def example_defs provider_defs Let_def)
  from d p e show ?thesis by simp
qed

text \<open>
  C10. A result that \<^verbatim>\<open>execute\<close> returns has \<^verbatim>\<open>fallbackUsed\<close> false and no
  \<^verbatim>\<open>fallbackReason\<close>, also when the provider manager went past a failing provider
  to get the answer.
\<close>

theorem returned_result_never_flags_fallback:
  assumes "fst (execute ex route' ctx clk) = Inr res"
  shows "fallbackUsed (metadata res) = False \<and> fallbackReason (metadata res) = None"
  using execute_cases [of route' ex ctx clk] assms by fastforce

theorem returned_result_never_flags_fallback_witness:
  "map fst (snd (execute fallback_executor ''standard'' plain_context example_clock)) =
     [''Anthropic Claude'', ''OpenAI GPT''] \<and>
   map_sum message (\<lambda>res. (er_provider res, fallbackUsed (metadata res), fallbackReason (metadata res)))
     (fst (execute fallback_executor ''standard'' plain_context example_clock)) =
     Inr (''OpenAI GPT'', False, None)"
proof -
  have x: "map fst (snd (execute fallback_executor ''standard'' plain_context example_clock)) =
             [''Anthropic Claude'', ''OpenAI GPT''] \<and>
           map_sum message er_provider
             (fst (execute fallback_executor ''standard'' plain_context example_clock)) =
             Inr ''OpenAI GPT''"
    by (simp add: executor_defs registry_defs fallback_executor_def plain_context_def
          example_clock_def example_defs provider_defs Let_def)
  then obtain res where r: "fst (execute fallback_executor ''standard'' plain_context example_clock) = Inr res"
    and f: "er_provider res = ''OpenAI GPT''"
    by (cases "fst (execute fallback_executor ''standard'' plain_context example_clock)") auto
  from returned_result_never_flags_fallback [OF r] r f x show ?thesis
    by simp
qed

subsection \<open>Cost estimation\<close>

text \<open>
  C7. For a model key registered in \<open>MODELS\<close> and any token counts, the estimate is
  \<open>(i / 1000000) * inputCost + (o / 1000000) * outputCost\<close>; doubling both
  counts doubles it, and more generally it is linear in the pair of counts.
\<close>

theorem estimateCost_linear:
  assumes "MODELS m = Some cfg"
  shows "estimateCost m i j =
           Inr (Num ((i / 1000000) * inputCost cfg + (j / 1000000) * outputCost cfg)) \<and>
         (\<exists>c. estimateCost m x y = Inr (Num c) \<and>
            estimateCost m (2 * x) (2 * y) = Inr (Num (2 * c))) \<and>
         (\<exists>c d. estimateCost m x y = Inr (Num c) \<and> estimateCost m x' y' = Inr (Num d) \<and>
            estimateCost m (a * x + b * x') (a * y + b * y') = Inr (Num (a * c + b * d)))"
proof -
  let ?f = "\<lambda>p q. (p / 1000000) * inputCost cfg + (q / 1000000) * outputCost cfg"
  have eq: "estimateCost m p q = Inr (Num (?f p q))" for p q
    using assms by (simp add: estimateCost_def table_get_def Let_def)
  have dbl: "?f (2 * x) (2 * y) = 2 * ?f x y"
    by (simp add: algebra_simps)
  have lin: "?f (a * x + b * x') (a * y + b * y') = a * ?f x y + b * ?f x' y'"
    by (simp add: algebra_simps add_divide_distrib)
  show ?thesis
    unfolding eq using dbl lin by blast
qed

theorem estimateCost_linear_witness:
  "MODELS ''gpt-4o'' \<noteq> None \<and>
   estimateCost ''gpt-4o'' 1000 500 = Inr (Num (3 / 400)) \<and>
   estimateCost ''gpt-4o'' 2000 1000 = Inr (Num (2 * (3 / 400)))"
proof -
  obtain cfg where h: "MODELS ''gpt-4o'' = Some cfg"
    by (simp add: MODELS_def MODELS_entries_def)
  have cost: "inputCost cfg = 5 / 2" "outputCost cfg = 10"
    using h by (auto simp: MODELS_def MODELS_entries_def)
  from estimateCost_linear [OF h, of 1000 500 1000 500 0 0 0 0]
  have "estimateCost ''gpt-4o'' 1000 500 = Inr (Num (3 / 400))"
    and "estimateCost ''gpt-4o'' 2000 1000 = Inr (Num (2 * (3 / 400)))"
    by (auto simp: cost)
  then show ?thesis using h by simp
qed

end
